theory Spec2Isabelle
  imports Complex_Main "HOL-Library.AList" "HOL-Library.Sublist"
begin

section \<open>Python strings and the helpers of the mapper\<close>

text \<open>
  A Python \<open>str\<close> is modelled as a \<open>string\<close>: a list of characters with code points
  below 256. \<open>Optional[str]\<close> is \<open>string option\<close>; a value is falsy when it is
  \<open>None\<close> or the empty string.
\<close>

definition falsy :: "string option \<Rightarrow> bool" where
  "falsy v = (case v of None \<Rightarrow> True | Some s \<Rightarrow> s = [])"

text \<open>\<open>v or d\<close> on an optional string.\<close>

definition or_else :: "string option \<Rightarrow> string \<Rightarrow> string" where
  "or_else v d = (case v of None \<Rightarrow> d | Some s \<Rightarrow> if s = [] then d else s)"

abbreviation backslash :: char where
  "backslash \<equiv> CHR 0x5C"

abbreviation CR :: char where
  "CR \<equiv> CHR 0x0D"

abbreviation LF :: char where
  "LF \<equiv> CHR 0x0A"

text \<open>\<open>s.replace(old, new)\<close> for a one-character \<open>old\<close>.\<close>

definition replace_chr :: "char \<Rightarrow> string \<Rightarrow> string \<Rightarrow> string" where
  "replace_chr old new s = concat (map (\<lambda>c. if c = old then new else [c]) s)"

text \<open>\<open>s.split(sep)\<close> for a one-character separator: the empty string gives \<open>['']\<close>.\<close>

fun split_on :: "char \<Rightarrow> string \<Rightarrow> string list" where
  "split_on sep [] = [[]]"
| "split_on sep (c # cs) =
     (if c = sep then [] # split_on sep cs
      else (case split_on sep cs of
              [] \<Rightarrow> [[c]]
            | f # fs \<Rightarrow> (c # f) # fs))"

text \<open>\<open>sep.join(xs)\<close> for a one-character separator.\<close>

fun join_chr :: "char \<Rightarrow> string list \<Rightarrow> string" where
  "join_chr sep [] = []"
| "join_chr sep [x] = x"
| "join_chr sep (x # y # ys) = x @ sep # join_chr sep (y # ys)"

text \<open>
  \<open>str.isspace\<close> on the code points below 256, for the truth value of \<open>s.strip()\<close>.
\<close>

definition is_space :: "char \<Rightarrow> bool" where
  "is_space c = (c \<in> set [CHR 0x09, CHR 0x0A, CHR 0x0B, CHR 0x0C, CHR 0x0D, CHR 0x1C,
     CHR 0x1D, CHR 0x1E, CHR 0x1F, CHR 0x20, CHR 0x85, CHR 0xA0])"

definition strip_truthy :: "string \<Rightarrow> bool" where
  "strip_truthy s = (\<exists>c \<in> set s. \<not> is_space c)"

text \<open>The character class \<open>\d\<close> on the code points below 256.\<close>

definition is_digit :: "char \<Rightarrow> bool" where
  "is_digit c = (c \<in> set ''0123456789'')"

definition digit_chr :: "nat \<Rightarrow> char" where
  "digit_chr n = ''0123456789'' ! (n mod 10)"

text \<open>Exceptions of the source are values.\<close>

datatype error =
    HTTPException nat string
  | AttributeError
  | TypeError
  | IndexError
  | ReError

definition bind_err :: "error + 'a \<Rightarrow> ('a \<Rightarrow> error + 'b) \<Rightarrow> error + 'b" where
  "bind_err m f = (case m of Inl e \<Rightarrow> Inl e | Inr x \<Rightarrow> f x)"

subsection \<open>Constants\<close>

definition ASSIGNING_AUTHORITY_HEALTH_ID :: string where
  "ASSIGNING_AUTHORITY_HEALTH_ID = ''2.16.840.1.113883.3.3731.1.1.100.1''"

definition NATIONAL_ORG_ROOT :: string where
  "NATIONAL_ORG_ROOT = ''2.16.840.1.113883.3.3731''"

definition HL7_VERSION :: string where
  "HL7_VERSION = ''2.5.1''"

subsection \<open>The standard library and the sources of fresh values\<close>

text \<open>
  A \<open>datetime\<close> as \<open>strftime("%Y%m%d%H%M%S")\<close> reads it: the format prints the fields of
  the value as they are, and ignores its offset and microseconds.
\<close>

record datetime =
  year :: nat
  month :: nat
  day :: nat
  hour :: nat
  minute :: nat
  second :: nat

text \<open>
  What the code takes from outside the repository is a parameter of the model: the clock
  and \<open>uuid.uuid4\<close> by call site (in source order within each function), and the
  library functions \<open>datetime.fromisoformat\<close>, \<open>base64.b64decode\<close>, \<open>base64.b64encode\<close>
  and \<open>hashlib.sha1(b).hexdigest()\<close>. A library call that raises returns \<open>None\<close>.
  \<open>re_sub_escaped doc_id repl text\<close> is the call of \<open>re.sub\<close> in
  \<open>build_iti41_mtom_envelope\<close> when the replacement holds a backslash, which \<open>re\<close> reads
  as an escape; \<open>exc_text\<close> is \<open>str(e)\<close> of an exception. The calls of \<open>uuid.uuid4\<close> are
  numbered 0 in \<open>build_msh\<close>, 0 to 9 in \<open>build_iti41_ebxml\<close> and 10 in
  \<open>create_mtom_multipart\<close>.
\<close>

type_synonym bytes = "nat list"

record env =
  utcnow :: "nat \<Rightarrow> datetime"
  uuid4 :: "nat \<Rightarrow> string"
  fromisoformat :: "string \<Rightarrow> datetime option"
  b64decode :: "string \<Rightarrow> bytes option"
  b64encode :: "bytes \<Rightarrow> string"
  sha1_hexdigest :: "bytes \<Rightarrow> string"
  re_sub_escaped :: "string \<Rightarrow> string \<Rightarrow> string \<Rightarrow> string option"
  exc_text :: "error \<Rightarrow> string"

text \<open>The last \<open>w\<close> decimal digits of \<open>n\<close>, zero-padded, as \<open>%m\<close>, \<open>%d\<close>, ... print a field.\<close>

fun zpad :: "nat \<Rightarrow> nat \<Rightarrow> string" where
  "zpad 0 n = []"
| "zpad (Suc w) n = zpad w (n div 10) @ [digit_chr n]"

text \<open>\<open>str(n)\<close> for a natural number.\<close>

fun str_nat :: "nat \<Rightarrow> string" where
  "str_nat n = (if n < 10 then [digit_chr n] else str_nat (n div 10) @ [digit_chr n])"

declare str_nat.simps [simp del]

definition strftime :: "datetime \<Rightarrow> string" where
  "strftime dt =
     zpad 4 (year dt) @ zpad 2 (month dt) @ zpad 2 (day dt) @
     zpad 2 (hour dt) @ zpad 2 (minute dt) @ zpad 2 (second dt)"

subsection \<open>\<open>ts_to_hl7\<close>\<close>

text \<open>
  \<open>now\<close> is the value of \<open>datetime.utcnow()\<close> at this call. The \<open>try\<close> block holds the
  parse and the formatting; its handler only filters and slices a string.
\<close>

definition ts_to_hl7 :: "env \<Rightarrow> datetime \<Rightarrow> string option \<Rightarrow> string" where
  "ts_to_hl7 e now ts =
     (case ts of
        None \<Rightarrow> strftime now
      | Some s \<Rightarrow>
          if s = [] then strftime now
          else (case fromisoformat e (replace_chr (CHR ''Z'') ''+00:00'' s) of
                  Some dt \<Rightarrow> strftime dt
                | None \<Rightarrow> take 14 (filter is_digit s)))"

subsection \<open>\<open>PatientModel.normalize_dob\<close>\<close>

text \<open>
  \<open>re.sub(r"[-:T].*", "", v)\<close>: without \<open>re.DOTALL\<close> the dot stops at a line feed, so
  every match runs from a separator to the end of its line. The flag says that the scan
  is inside a match.
\<close>

fun sub_sep_to_eol :: "bool \<Rightarrow> string \<Rightarrow> string" where
  "sub_sep_to_eol inside [] = []"
| "sub_sep_to_eol inside (c # cs) =
     (if inside \<and> c \<noteq> LF then sub_sep_to_eol True cs
      else if c = CHR ''-'' \<or> c = CHR '':'' \<or> c = CHR ''T'' then sub_sep_to_eol True cs
      else c # sub_sep_to_eol False cs)"

definition normalize_dob :: "string option \<Rightarrow> string option" where
  "normalize_dob v =
     (if falsy v then v else map_option (\<lambda>s. take 8 (sub_sep_to_eol False s)) v)"

subsection \<open>\<open>escape_hl7_field\<close>\<close>

definition escape_hl7_field :: "string option \<Rightarrow> string" where
  "escape_hl7_field s =
     (case s of
        None \<Rightarrow> []
      | Some t \<Rightarrow>
          replace_chr (CHR ''~'') [backslash, CHR ''R'', backslash]
            (replace_chr (CHR ''&'') [backslash, CHR ''T'', backslash]
              (replace_chr (CHR ''^'') [backslash, CHR ''S'', backslash]
                (replace_chr (CHR ''|'') [backslash, CHR ''F'', backslash] t))))"

text \<open>The mapping of the four reserved characters, one character at a time.\<close>

definition escape_chr :: "char \<Rightarrow> string" where
  "escape_chr c =
     (if c = CHR ''|'' then [backslash, CHR ''F'', backslash]
      else if c = CHR ''^'' then [backslash, CHR ''S'', backslash]
      else if c = CHR ''&'' then [backslash, CHR ''T'', backslash]
      else if c = CHR ''~'' then [backslash, CHR ''R'', backslash]
      else [c])"

section \<open>HL7 v2.5.1: the models, the builder and the parser\<close>

subsection \<open>Models\<close>

record Identifier =
  id' :: string
  assigning_authority :: "string option"
  type' :: "string option"

record PatientModel =
  identifiers :: "Identifier list"
  name_family :: "string option"
  name_given :: "string option"
  middle_name :: "string option"
  dob :: "string option"
  sex :: "string option"

record PD1Model =
  vip_indicator :: "string option"
  prior_patient_ids :: "Identifier list option"

record VisitModel =
  patient_class :: "string option"
  location :: "string option"
  admitting_doctor_id :: "string option"
  admitting_doctor_family :: "string option"
  admitting_doctor_given :: "string option"
  attending_doctor_id :: "string option"
  attending_doctor_family :: "string option"
  attending_doctor_given :: "string option"
  visit_number :: "string option"
  admit_datetime :: "string option"
  discharge_datetime :: "string option"

record MessageModel =
  event :: string
  sending_app_oid :: "string option"
  sending_facility :: "string option"
  receiving_app :: "string option"
  receiving_facility :: "string option"
  message_datetime :: "string option"
  message_control_id :: "string option"
  version :: "string option"

record NK1Model =
  name :: "string option"
  relationship :: "string option"
  phone_number :: "string option"

record GT1Model =
  guarantor_number :: "string option"
  guarantor_name :: "string option"
  guarantor_address :: "string option"
  guarantor_phone :: "string option"

record IN1Model =
  insurance_plan_id :: "string option"
  insurance_company_id :: "string option"
  insurance_company_name :: "string option"
  insured_id :: "string option"
  insured_name :: "string option"

text \<open>
  A value of type \<open>Any\<close> in a \<open>Dict[str, Any]\<close>: a string, \<open>None\<close>, or any other JSON
  value (number, boolean, list, object), which carries the text that \<open>str()\<close> gives it.
\<close>

datatype pyval = PStr string | PNone | POther string

type_synonym pydict = "(string \<times> pyval) list"

record HL7FullInput =
  header :: MessageModel
  patient :: PatientModel
  pd1 :: "PD1Model option"
  visit :: "VisitModel option"
  mrg :: "pydict option"
  al1 :: "pydict list option"
  dg1 :: "pydict list option"
  pr1 :: "pydict list option"
  nk1 :: "NK1Model list option"
  gt1 :: "GT1Model list option"
  in1 :: "IN1Model list option"

text \<open>\<open>d.get(k, dflt)\<close>.\<close>

definition dict_get :: "pydict \<Rightarrow> string \<Rightarrow> pyval \<Rightarrow> pyval" where
  "dict_get d k dflt = (case map_of d k of None \<Rightarrow> dflt | Some v \<Rightarrow> v)"

text \<open>A value inside an f-string.\<close>

definition fmt :: "pyval \<Rightarrow> string" where
  "fmt v = (case v of PStr s \<Rightarrow> s | PNone \<Rightarrow> ''None'' | POther r \<Rightarrow> r)"

definition fmt_opt :: "string option \<Rightarrow> string" where
  "fmt_opt v = (case v of None \<Rightarrow> ''None'' | Some s \<Rightarrow> s)"

text \<open>
  \<open>escape_hl7_field\<close> on a value of type \<open>Any\<close>: a value that is neither \<open>None\<close> nor a
  string has no \<open>replace\<close> method.
\<close>

definition escape_any :: "pyval \<Rightarrow> error + string" where
  "escape_any v =
     (case v of
        PNone \<Rightarrow> Inr (escape_hl7_field None)
      | PStr s \<Rightarrow> Inr (escape_hl7_field (Some s))
      | POther r \<Rightarrow> Inl AttributeError)"

fun map_err :: "('a \<Rightarrow> error + 'b) \<Rightarrow> 'a list \<Rightarrow> error + 'b list" where
  "map_err f [] = Inr []"
| "map_err f (x # xs) =
     bind_err (f x) (\<lambda>y. bind_err (map_err f xs) (\<lambda>ys. Inr (y # ys)))"

text \<open>\<open>ts_to_hl7(x) if x else ''\<close>.\<close>

definition ts_if :: "env \<Rightarrow> datetime \<Rightarrow> string option \<Rightarrow> string" where
  "ts_if e now x = (if falsy x then [] else ts_to_hl7 e now x)"

subsection \<open>The builder\<close>

definition build_msh :: "env \<Rightarrow> MessageModel \<Rightarrow> string" where
  "build_msh e hdr =
     (let enc = [CHR ''^'', CHR ''~'', backslash, CHR ''&''];
          sending_app = or_else (sending_app_oid hdr) [];
          sending_fac = or_else (sending_facility hdr) [];
          recv_app = or_else (receiving_app hdr) [];
          recv_fac = or_else (receiving_facility hdr) [];
          dt = ts_to_hl7 e (utcnow e 0) (message_datetime hdr);
          msg_type = event hdr;
          ctrl = or_else (message_control_id hdr) (uuid4 e 0);
          proc = ''P'';
          ver = or_else (version hdr) HL7_VERSION
      in ''MSH|'' @ enc @ ''|'' @ sending_app @ ''|'' @ sending_fac @ ''|'' @ recv_app @ ''|'' @
         recv_fac @ ''|'' @ dt @ ''||'' @ msg_type @ ''|'' @ ctrl @ ''|'' @ proc @ ''|'' @ ver)"

definition build_pid :: "PatientModel \<Rightarrow> error + string" where
  "build_pid p =
     bind_err
       (case identifiers p of
          [] \<Rightarrow> Inr []
        | first # others \<Rightarrow>
            if assigning_authority first \<noteq> Some ASSIGNING_AUTHORITY_HEALTH_ID
            then Inl (HTTPException 400
                   (''Patient first identifier assigning_authority must be '' @
                    ASSIGNING_AUTHORITY_HEALTH_ID))
            else Inr (id' first @ ''^^^'' @ fmt_opt (assigning_authority first) @ ''^ISO''))
       (\<lambda>pid3.
          let name =
                (if \<not> falsy (name_family p) \<or> \<not> falsy (name_given p) \<or> \<not> falsy (middle_name p)
                 then escape_hl7_field (Some (or_else (name_family p) [])) @ ''^'' @
                      escape_hl7_field (Some (or_else (name_given p) [])) @ ''^'' @
                      escape_hl7_field (Some (or_else (middle_name p) []))
                 else []);
              dob = or_else (dob p) [];
              sex = or_else (sex p) []
          in Inr (''PID|1||'' @ pid3 @ ''||'' @ name @ ''||'' @ dob @ ''|'' @ sex))"

definition pd1_segments :: "PD1Model option \<Rightarrow> string list" where
  "pd1_segments x =
     (case x of
        None \<Rightarrow> []
      | Some d \<Rightarrow>
          let vip = or_else (vip_indicator d) [];
              prior =
                (case prior_patient_ids d of
                   None \<Rightarrow> []
                 | Some ps \<Rightarrow>
                     if ps = [] then []
                     else join_chr (CHR ''~'')
                            (map (\<lambda>p. id' p @ ''^^^'' @ fmt_opt (assigning_authority p) @ ''^ISO'')
                               ps))
          in [''PD1|'' @ vip @ ''|'' @ prior])"

definition pv1_segment :: "env \<Rightarrow> VisitModel \<Rightarrow> string" where
  "pv1_segment e v =
     (let attend_doc =
            or_else (attending_doctor_id v) [] @ ''^'' @
            or_else (attending_doctor_family v) [] @ ''^'' @
            or_else (attending_doctor_given v) []
      in ''PV1|1|'' @ or_else (patient_class v) [] @ ''|'' @ or_else (location v) [] @
         ''||||'' @ attend_doc @ ''|||||||||||||||'' @ or_else (visit_number v) [] @ ''|'' @
         ts_if e (utcnow e 2) (admit_datetime v) @ ''|'' @
         ts_if e (utcnow e 3) (discharge_datetime v))"

definition pv2_segment :: "env \<Rightarrow> VisitModel \<Rightarrow> string" where
  "pv2_segment e v =
     ''PV2|||'' @ ts_if e (utcnow e 4) (admit_datetime v) @ ''|'' @
     ts_if e (utcnow e 5) (discharge_datetime v)"

definition visit_segments :: "env \<Rightarrow> VisitModel option \<Rightarrow> string list" where
  "visit_segments e x =
     (case x of None \<Rightarrow> [] | Some v \<Rightarrow> [pv1_segment e v, pv2_segment e v])"

definition mrg_segments :: "pydict option \<Rightarrow> string list" where
  "mrg_segments x =
     (case x of
        None \<Rightarrow> []
      | Some m \<Rightarrow>
          if m = [] then []
          else [''MRG|'' @ fmt (dict_get m ''prior_patient_id'' (PStr [])) @ ''|||'' @
                fmt (dict_get m ''prior_visit_number'' (PStr []))])"

definition al1_segment :: "pydict \<Rightarrow> error + string" where
  "al1_segment a =
     bind_err (escape_any (dict_get a ''allergen'' (PStr []))) (\<lambda>allergen.
     bind_err (escape_any (dict_get a ''reaction'' (PStr []))) (\<lambda>reaction.
     bind_err (escape_any (dict_get a ''severity'' (PStr []))) (\<lambda>severity.
       Inr (''AL1|||'' @ allergen @ ''|'' @ reaction @ ''|'' @ severity))))"

definition dg1_segment :: "pydict \<Rightarrow> error + string" where
  "dg1_segment d =
     bind_err (escape_any (dict_get d ''diagnosis_desc'' (PStr []))) (\<lambda>desc.
       Inr (''DG1|'' @ fmt (dict_get d ''set_id'' (PStr ''1'')) @ ''|'' @
            fmt (dict_get d ''diagnosis_type'' (PStr [])) @ ''|'' @
            fmt (dict_get d ''diagnosis_code'' (PStr [])) @ ''|'' @ desc))"

definition pr1_segment :: "pydict \<Rightarrow> error + string" where
  "pr1_segment p =
     bind_err (escape_any (dict_get p ''procedure_desc'' (PStr []))) (\<lambda>desc.
       Inr (''PR1|'' @ fmt (dict_get p ''set_id'' (PStr ''1'')) @ ''|'' @
            fmt (dict_get p ''procedure_code'' (PStr [])) @ ''|'' @ desc))"

definition esc_or :: "string option \<Rightarrow> string" where
  "esc_or v = escape_hl7_field (Some (or_else v []))"

definition nk1_segment :: "NK1Model \<Rightarrow> string" where
  "nk1_segment nk =
     ''NK1||'' @ esc_or (name nk) @ ''|'' @ esc_or (relationship nk) @ ''|'' @
     esc_or (phone_number nk)"

definition gt1_segment :: "GT1Model \<Rightarrow> string" where
  "gt1_segment gt =
     ''GT1|'' @ esc_or (guarantor_number gt) @ ''|'' @ esc_or (guarantor_name gt) @ ''|'' @
     esc_or (guarantor_address gt) @ ''|'' @ esc_or (guarantor_phone gt)"

definition in1_segment :: "IN1Model \<Rightarrow> string" where
  "in1_segment ins =
     ''IN1|'' @ esc_or (insurance_plan_id ins) @ ''|'' @ esc_or (insurance_company_id ins) @
     ''|'' @ esc_or (insurance_company_name ins) @ ''|'' @ esc_or (insured_id ins) @ ''|'' @
     esc_or (insured_name ins)"

text \<open>\<open>if xs: for x in xs: ...\<close> on an optional list.\<close>

definition opt_list :: "'a list option \<Rightarrow> 'a list" where
  "opt_list x = (case x of None \<Rightarrow> [] | Some xs \<Rightarrow> xs)"

text \<open>The list \<open>segments\<close> of \<open>json_to_hl7_full\<close>, in the order of its appends.\<close>

definition hl7_segments :: "env \<Rightarrow> HL7FullInput \<Rightarrow> error + string list" where
  "hl7_segments e payload =
     (let msh = build_msh e (header payload);
          evn_code =
            (if CHR ''^'' \<in> set (event (header payload))
             then last (split_on (CHR ''^'') (event (header payload)))
             else event (header payload));
          evn_time = ts_to_hl7 e (utcnow e 1) (message_datetime (header payload));
          evn = ''EVN|'' @ evn_code @ ''|'' @ evn_time
      in bind_err (build_pid (patient payload)) (\<lambda>pid.
         bind_err (map_err al1_segment (opt_list (al1 payload))) (\<lambda>al1s.
         bind_err (map_err dg1_segment (opt_list (dg1 payload))) (\<lambda>dg1s.
         bind_err (map_err pr1_segment (opt_list (pr1 payload))) (\<lambda>pr1s.
           Inr ([msh, evn, pid] @ pd1_segments (pd1 payload) @
                visit_segments e (visit payload) @ mrg_segments (mrg payload) @
                al1s @ dg1s @ pr1s @
                map nk1_segment (opt_list (nk1 payload)) @
                map gt1_segment (opt_list (gt1 payload)) @
                map in1_segment (opt_list (in1 payload))))))))"

text \<open>
  The optional hl7apy check only logs: the message is returned whatever it finds.
\<close>

definition json_to_hl7_full :: "env \<Rightarrow> HL7FullInput \<Rightarrow> error + string" where
  "json_to_hl7_full e payload =
     bind_err (hl7_segments e payload) (\<lambda>segments. Inr (join_chr CR segments))"

subsection \<open>The parser\<close>

text \<open>
  The values of the decoded dictionaries are strings, or a list of strings under
  \<open>identifiers\<close>. A dictionary keeps its keys in insertion order.
\<close>

datatype jv = S string | L "string list"

type_synonym jdict = "(string \<times> jv) list"

text \<open>
  The dictionary \<open>result\<close>. Its first eight keys are always present; \<open>nk1\<close>, \<open>gt1\<close> and
  \<open>in1\<close> appear with their first segment (\<open>setdefault\<close>), so they are optional here. A value
  that can be \<open>None\<close> is an option.
\<close>

record hl7_json =
  header_j :: jdict
  patient_j :: jdict
  pd1_j :: "jdict option"
  visit_j :: "jdict option"
  mrg_j :: "jdict option"
  al1_j :: "jdict list"
  dg1_j :: "jdict list"
  pr1_j :: "jdict list"
  nk1_j :: "jdict list option"
  gt1_j :: "jdict list option"
  in1_j :: "jdict list option"

definition initial_result :: hl7_json where
  "initial_result =
     \<lparr>header_j = [], patient_j = [], pd1_j = None, visit_j = None, mrg_j = None,
      al1_j = [], dg1_j = [], pr1_j = [], nk1_j = None, gt1_j = None, in1_j = None\<rparr>"

text \<open>\<open>fields[k] if len(fields) > k else ""\<close>.\<close>

definition fld :: "string list \<Rightarrow> nat \<Rightarrow> jv" where
  "fld flds k = S (if length flds > k then flds ! k else [])"

text \<open>\<open>d.update({...})\<close> and \<open>d[k] = v\<close>.\<close>

definition dict_update :: "jdict \<Rightarrow> jdict \<Rightarrow> jdict" where
  "dict_update d new = foldl (\<lambda>acc kv. AList.update (fst kv) (snd kv) acc) d new"

text \<open>\<open>result.setdefault(key, []).append(x)\<close> on an optional key.\<close>

definition setdefault_append :: "jdict list option \<Rightarrow> jdict \<Rightarrow> jdict list option" where
  "setdefault_append v x = (case v of None \<Rightarrow> Some [x] | Some xs \<Rightarrow> Some (xs @ [x]))"

text \<open>
  One iteration of the loop over the segments, from the list \<open>fields\<close> (here \<open>flds\<close>). \<open>fields[0]\<close> is the
  only access without a length guard. Under \<open>PV2\<close>, \<open>result.setdefault("visit", {})\<close>
  returns the stored value, since the key is always present: when that value is \<open>None\<close>
  the item assignment raises \<open>TypeError\<close>.
\<close>

definition decode_fields :: "hl7_json \<Rightarrow> string list \<Rightarrow> error + hl7_json" where
  "decode_fields r flds =
     (case flds of
        [] \<Rightarrow> Inl IndexError
      | nm # rest \<Rightarrow>
          if nm = ''MSH'' then
            Inr (r\<lparr>header_j := dict_update (header_j r)
              [(''sending_app_oid'', fld flds 2),
               (''sending_facility'', fld flds 3),
               (''receiving_app'', fld flds 4),
               (''receiving_facility'', fld flds 5),
               (''message_datetime'', fld flds 6),
               (''event'', fld flds 8),
               (''message_control_id'', fld flds 9),
               (''version'', fld flds 11)]\<rparr>)
          else if nm = ''EVN'' then
            Inr (r\<lparr>header_j := dict_update (header_j r)
              [(''evn'', fld flds 1), (''evn_datetime'', fld flds 2)]\<rparr>)
          else if nm = ''PID'' then
            Inr (r\<lparr>patient_j :=
              [(''identifiers'', L [if length flds > 3 then flds ! 3 else []]),
               (''name'', fld flds 5),
               (''dob'', fld flds 7),
               (''sex'', fld flds 8)]\<rparr>)
          else if nm = ''PD1'' then
            Inr (r\<lparr>pd1_j := Some [(''vip'', fld flds 1), (''prior_ids'', fld flds 2)]\<rparr>)
          else if nm = ''PV1'' then
            Inr (r\<lparr>visit_j := Some
              [(''patient_class'', fld flds 2),
               (''location'', fld flds 3),
               (''attending_doctor'', fld flds 8),
               (''visit_number'', fld flds 19)]\<rparr>)
          else if nm = ''PV2'' then
            (case visit_j r of
               None \<Rightarrow> Inl TypeError
             | Some v \<Rightarrow>
                 Inr (r\<lparr>visit_j := Some (dict_update
                   (dict_update v [(''admit'', fld flds 3)])
                   [(''discharge'', fld flds 4)])\<rparr>))
          else if nm = ''MRG'' then
            Inr (r\<lparr>mrg_j := Some
              [(''prior_patient_id'', fld flds 1), (''prior_visit'', fld flds 4)]\<rparr>)
          else if nm = ''AL1'' then
            Inr (r\<lparr>al1_j := al1_j r @
              [[(''allergen'', fld flds 3), (''reaction'', fld flds 4)]]\<rparr>)
          else if nm = ''DG1'' then
            Inr (r\<lparr>dg1_j := dg1_j r @
              [[(''code'', fld flds 3), (''desc'', fld flds 4)]]\<rparr>)
          else if nm = ''PR1'' then
            Inr (r\<lparr>pr1_j := pr1_j r @
              [[(''code'', fld flds 2), (''desc'', fld flds 3)]]\<rparr>)
          else if nm = ''NK1'' then
            Inr (r\<lparr>nk1_j := setdefault_append (nk1_j r)
              [(''name'', fld flds 2),
               (''relationship'', fld flds 3),
               (''phone_number'', fld flds 4)]\<rparr>)
          else if nm = ''GT1'' then
            Inr (r\<lparr>gt1_j := setdefault_append (gt1_j r)
              [(''guarantor_number'', fld flds 1),
               (''guarantor_name'', fld flds 2),
               (''guarantor_address'', fld flds 3),
               (''guarantor_phone'', fld flds 4)]\<rparr>)
          else if nm = ''IN1'' then
            Inr (r\<lparr>in1_j := setdefault_append (in1_j r)
              [(''insurance_plan_id'', fld flds 1),
               (''insurance_company_id'', fld flds 2),
               (''insurance_company_name'', fld flds 3),
               (''insured_id'', fld flds 4),
               (''insured_name'', fld flds 5)]\<rparr>)
          else Inr r)"

fun decode_segs :: "hl7_json \<Rightarrow> string list \<Rightarrow> error + hl7_json" where
  "decode_segs r [] = Inr r"
| "decode_segs r (seg # segs) =
     bind_err (decode_fields r (split_on (CHR ''|'') seg)) (\<lambda>r'. decode_segs r' segs)"

text \<open>\<open>[s for s in hl7_msg.split("\r") if s.strip()]\<close>.\<close>

definition segments_of :: "string \<Rightarrow> string list" where
  "segments_of hl7_msg = filter strip_truthy (split_on CR hl7_msg)"

definition hl7_full_to_json :: "string \<Rightarrow> error + hl7_json" where
  "hl7_full_to_json hl7_msg = decode_segs initial_result (segments_of hl7_msg)"

text \<open>\<open>name = fields[0]\<close> of a segment.\<close>

definition seg_name :: "string \<Rightarrow> string" where
  "seg_name seg = hd (split_on (CHR ''|'') seg)"

section \<open>IHE ITI-41: the ebXML builder\<close>

subsection \<open>Constants and the model of the request\<close>

definition SUBMISSIONSET_UNIQUEID_SCHEME :: string where
  "SUBMISSIONSET_UNIQUEID_SCHEME = ''urn:uuid:96fdda7c-d067-4183-912e-bf5ee74998a8''"

definition UNIQUEID_SCHEME :: string where
  "UNIQUEID_SCHEME = ''urn:uuid:58a6f841-87b3-4a3e-92fd-a8ffeff98427''"

definition OBJECTTYPE_ONDEMAND :: string where
  "OBJECTTYPE_ONDEMAND = ''urn:uuid:34268e47-fdf5-41a6-ba33-82133c465248''"

text \<open>The dictionary \<open>SOAP_NS\<close>, from prefix to namespace URI, in the order of the source.\<close>

definition SOAP_NS :: "(string \<times> string) list" where
  "SOAP_NS =
     [(''s'', ''http://www.w3.org/2003/05/soap-envelope''),
      (''a'', ''http://www.w3.org/2005/08/addressing''),
      (''xds'', ''urn:ihe:iti:xds-b:2007''),
      (''rim'', ''urn:oasis:names:tc:ebxml-regrep:xsd:rim:3.0''),
      (''lcm'', ''urn:oasis:names:tc:ebxml-regrep:xsd:lcm:3.0'')]"

text \<open>\<open>"{%s}Local" % SOAP_NS[prefix]\<close>: a tag in the notation of ElementTree.\<close>

definition qn :: "string \<Rightarrow> string \<Rightarrow> string" where
  "qn pfx local_name =
     ''{'' @ (case map_of SOAP_NS pfx of Some uri \<Rightarrow> uri | None \<Rightarrow> []) @ ''}'' @ local_name"

record SOAPInput =
  soap :: pydict
  repository_address :: "string option"
  patient_id :: string
  class_code :: "string option"
  type_code :: "string option"
  practice_setting_code :: "string option"
  unique_id :: "string option"
  object_type :: "string option"
  document_base64 :: "string option"
  mime_type :: "string option"
  creation_time :: "string option"
  source_id :: "string option"
  repository_unique_id :: "string option"

subsection \<open>Element trees\<close>

text \<open>
  An \<open>xml.etree.ElementTree.Element\<close>: tag, attributes in insertion order, text, children.
  The builder only appends children and sets attributes under fresh keys, so each element
  is written here with its final attributes and children.
\<close>

datatype xml = Element (el_tag: string) (el_attrib: "(string \<times> string) list")
  (el_text: "string option") (el_children: "xml list")

definition sha1_and_size :: "env \<Rightarrow> bytes \<Rightarrow> string \<times> string" where
  "sha1_and_size e b = (sha1_hexdigest e b, str_nat (length b))"

text \<open>\<open>add_slot(parent, name, values)\<close>: the \<open>Slot\<close> element that it appends to \<open>parent\<close>.\<close>

definition add_slot :: "string \<Rightarrow> string list \<Rightarrow> xml" where
  "add_slot nm vals =
     Element (qn ''rim'' ''Slot'') [(''name'', nm)] None
       [Element (qn ''rim'' ''ValueList'') [] None
          (map (\<lambda>v. Element (qn ''rim'' ''Value'') [] (Some v) []) vals)]"

text \<open>An element that is appended only under a condition.\<close>

definition when_el :: "bool \<Rightarrow> xml \<Rightarrow> xml list" where
  "when_el c x = (if c then [x] else [])"

text \<open>\<open>s.encode("utf-8")\<close> on code points below 256.\<close>

definition utf8_encode :: "string \<Rightarrow> bytes" where
  "utf8_encode s =
     concat (map (\<lambda>c. let n = (of_char c :: nat)
                        in if n < 128 then [n] else [192 + n div 64, 128 + n mod 64]) s)"

text \<open>
  The \<open>try\<close>/\<open>except\<close> around \<open>base64.b64decode\<close>: when the decoder raises, the bytes are
  those of the raw string.
\<close>

definition decode_document :: "env \<Rightarrow> string \<Rightarrow> bytes" where
  "decode_document e d = (case b64decode e d of Some b \<Rightarrow> b | None \<Rightarrow> utf8_encode d)"

text \<open>\<open>str.lower\<close> on code points below 256.\<close>

definition lower_chr :: "char \<Rightarrow> char" where
  "lower_chr c =
     (let n = (of_char c :: nat)
      in if (65 \<le> n \<and> n \<le> 90) \<or> (192 \<le> n \<and> n \<le> 222 \<and> n \<noteq> 215) then char_of (n + 32)
         else c)"

text \<open>\<open>p in s\<close> on strings.\<close>

fun contains :: "string \<Rightarrow> string \<Rightarrow> bool" where
  "contains p [] = (p = [])"
| "contains p (c # cs) = (prefix p (c # cs) \<or> contains p cs)"

text \<open>
  A value of the \<open>soap\<close> dictionary as the text of an element. The serializer, called at
  the end of the builder, raises \<open>TypeError\<close> on a text that is neither a string nor
  \<open>None\<close>.
\<close>

definition soap_text :: "pydict \<Rightarrow> string \<Rightarrow> string \<Rightarrow> error + string option" where
  "soap_text d k dflt =
     (case dict_get d k (PStr dflt) of
        PStr s \<Rightarrow> Inr (Some s)
      | PNone \<Rightarrow> Inr None
      | POther r \<Rightarrow> Inl TypeError)"

subsection \<open>\<open>build_iti41_ebxml\<close>\<close>

text \<open>
  The calls of \<open>uuid.uuid4\<close> in source order: 0 the default message id, 1 the default
  submission id, 2 the id of the submission set's external identifier, 3 the default
  document id, 4 and 5 the classifications, 6 to 8 the external identifiers of the document
  entry, 9 the association. The clock is read for the default submission time (0) and the
  default creation time (1).
\<close>

definition submission_id :: "env \<Rightarrow> SOAPInput \<Rightarrow> string" where
  "submission_id e obj = or_else (unique_id obj) (''urn:uuid:'' @ uuid4 e 1)"

definition doc_id :: "env \<Rightarrow> SOAPInput \<Rightarrow> string" where
  "doc_id e obj = or_else (unique_id obj) (''urn:uuid:'' @ uuid4 e 3)"

definition header_el :: "string option \<Rightarrow> string option \<Rightarrow> string option \<Rightarrow> xml" where
  "header_el action message_id to =
     Element (qn ''s'' ''Header'') [] None
       [Element (qn ''a'' ''Action'') [] action [],
        Element (qn ''a'' ''MessageID'') [] message_id [],
        Element (qn ''a'' ''To'') [] to []]"

definition external_identifier :: "string \<Rightarrow> string \<Rightarrow> string \<Rightarrow> string \<Rightarrow> xml" where
  "external_identifier ident registry_object scheme val =
     Element (qn ''rim'' ''ExternalIdentifier'')
       [(''id'', ident), (''registryObject'', registry_object),
        (''identificationScheme'', scheme)] None
       [Element (qn ''rim'' ''Value'') [] (Some val) []]"

definition localized_name :: "string \<Rightarrow> string \<Rightarrow> xml" where
  "localized_name tg val =
     Element (qn ''rim'' tg) [] None
       [Element (qn ''rim'' ''LocalizedString'') [(''value'', val)] None []]"

definition regpkg_el :: "env \<Rightarrow> SOAPInput \<Rightarrow> xml" where
  "regpkg_el e obj =
     (let rid = ''rs.'' @ submission_id e obj;
          submission_time = or_else (creation_time obj) (strftime (utcnow e 0))
      in Element (qn ''rim'' ''RegistryPackage'') [(''id'', rid)] None
           ([localized_name ''Name'' ''SubmissionSet'',
             external_identifier (''urn:uuid:'' @ uuid4 e 2) rid SUBMISSIONSET_UNIQUEID_SCHEME
               (submission_id e obj),
             add_slot ''submissionTime'' [submission_time]] @
            when_el (\<not> falsy (source_id obj)) (add_slot ''sourceId'' [or_else (source_id obj) []]) @
            when_el (\<not> falsy (repository_unique_id obj))
              (add_slot ''repositoryUniqueID'' [or_else (repository_unique_id obj) []])))"

text \<open>The three slots that the document bytes add to the document entry.\<close>

definition document_slots :: "env \<Rightarrow> SOAPInput \<Rightarrow> xml list" where
  "document_slots e obj =
     (case document_base64 obj of
        None \<Rightarrow> []
      | Some d \<Rightarrow>
          if d = [] then []
          else (let doc_bytes = decode_document e d;
                    hs = sha1_and_size e doc_bytes;
                    fmt_code =
                      (if contains ''pdf'' (map lower_chr (or_else (mime_type obj) []))
                       then ''urn:ihe:iti:xds-sd:pdf:2008''
                       else ''urn:ksa-ehealth:format:unknown'')
                in [add_slot ''hash'' [fst hs], add_slot ''size'' [snd hs],
                    add_slot ''formatCode'' [fmt_code]]))"

definition extrinsic_el :: "env \<Rightarrow> SOAPInput \<Rightarrow> xml" where
  "extrinsic_el e obj =
     (let did = doc_id e obj;
          creation = or_else (creation_time obj) (strftime (utcnow e 1))
      in Element (qn ''rim'' ''ExtrinsicObject'')
           [(''id'', did),
            (''objectType'', or_else (object_type obj) OBJECTTYPE_ONDEMAND),
            (''mimeType'', or_else (mime_type obj) ''text/xml'')] None
           ([localized_name ''Name'' ''Clinical Document'',
             localized_name ''Description'' ''Document (CDA or other)''] @
            when_el (\<not> falsy (class_code obj))
              (Element (qn ''rim'' ''Classification'')
                 [(''classificationScheme'', ''urn:ksa-ehealth:classcodes:2023''),
                  (''classificationNode'', or_else (class_code obj) []),
                  (''id'', ''urn:uuid:'' @ uuid4 e 4)] None []) @
            when_el (\<not> falsy (type_code obj))
              (Element (qn ''rim'' ''Classification'')
                 [(''classificationScheme'', ''urn:uuid:aa543740-bdda-424e-8c96-df4873be8500''),
                  (''classificationNode'', or_else (type_code obj) []),
                  (''id'', ''urn:uuid:'' @ uuid4 e 5)] None []) @
            [external_identifier (''urn:uuid:'' @ uuid4 e 6) did UNIQUEID_SCHEME did,
             external_identifier (''urn:uuid:'' @ uuid4 e 7) did UNIQUEID_SCHEME
               (patient_id obj)] @
            when_el (\<not> falsy (source_id obj))
              (external_identifier (''urn:uuid:'' @ uuid4 e 8) did UNIQUEID_SCHEME
                 (or_else (source_id obj) [])) @
            [add_slot ''creationTime'' [creation]] @
            document_slots e obj @
            when_el (\<not> falsy (practice_setting_code obj))
              (add_slot ''practiceSettingCode'' [or_else (practice_setting_code obj) []]) @
            when_el (\<not> falsy (repository_unique_id obj))
              (add_slot ''repositoryUniqueID'' [or_else (repository_unique_id obj) []])))"

text \<open>The \<open>Document\<close> element, appended to the request when there are document bytes.\<close>

definition document_el :: "env \<Rightarrow> SOAPInput \<Rightarrow> xml list" where
  "document_el e obj =
     (case document_base64 obj of
        None \<Rightarrow> []
      | Some d \<Rightarrow>
          if d = [] then []
          else [Element ''Document''
                  [(''id'', doc_id e obj), (''mimeType'', or_else (mime_type obj) ''text/xml'')]
                  (Some (b64encode e (decode_document e d))) []])"

definition assoc_el :: "env \<Rightarrow> SOAPInput \<Rightarrow> xml" where
  "assoc_el e obj =
     Element (qn ''rim'' ''Association'')
       [(''id'', ''urn:uuid:'' @ uuid4 e 9),
        (''associationType'', ''urn:oasis:names:tc:ebxml-regrep:AssociationType:HasMember''),
        (''sourceObject'', ''rs.'' @ submission_id e obj),
        (''targetObject'', doc_id e obj),
        (''status'', ''urn:oasis:names:tc:ebxml-regrep:StatusType:Approved'')] None []"

text \<open>
  The tree \<open>root\<close> at the call of \<open>ET.tostring\<close>, or the exception raised before: the
  \<open>HTTPException\<close> of the first statement, or the \<open>TypeError\<close> of the serializer.
\<close>

definition iti41_tree :: "env \<Rightarrow> SOAPInput \<Rightarrow> error + xml" where
  "iti41_tree e obj =
     (if \<not> falsy (source_id obj) \<and> \<not> prefix NATIONAL_ORG_ROOT (or_else (source_id obj) [])
      then Inl (HTTPException 400 (''source_id must start with '' @ NATIONAL_ORG_ROOT))
      else
        bind_err (soap_text (soap obj) ''action''
                    ''urn:ihe:iti:2007:ProvideAndRegisterDocumentSet-b'') (\<lambda>action.
        bind_err (soap_text (soap obj) ''message_id'' (uuid4 e 0)) (\<lambda>message_id.
        bind_err (soap_text (soap obj) ''to'' (or_else (repository_address obj) [])) (\<lambda>to.
          Inr (Element (qn ''s'' ''Envelope'') [] None
                 [header_el action message_id to,
                  Element (qn ''s'' ''Body'') [] None
                    [Element (qn ''xds'' ''ProvideAndRegisterDocumentSetRequest'') [] None
                       ([Element (qn ''lcm'' ''SubmitObjectsRequest'') [] None
                           [Element (qn ''rim'' ''RegistryObjectList'') [] None
                              [regpkg_el e obj, extrinsic_el e obj, assoc_el e obj]]] @
                        document_el e obj)]])))))"

subsection \<open>Serialization\<close>

text \<open>
  \<open>ET.tostring(root, encoding="utf-8", xml_declaration=True).decode("utf-8")\<close>, as
  ElementTree writes a tree: the declaration, qualified names with the registered
  prefixes, the namespace declarations on the root sorted by prefix, attributes in
  insertion order, and the short form of an element without text and children.
\<close>

definition escape_cdata :: "string \<Rightarrow> string" where
  "escape_cdata s =
     concat (map (\<lambda>c. if c = CHR ''&'' then ''&amp;''
                      else if c = CHR ''<'' then ''&lt;''
                      else if c = CHR ''>'' then ''&gt;''
                      else [c]) s)"

definition escape_attrib :: "string \<Rightarrow> string" where
  "escape_attrib s =
     concat (map (\<lambda>c. if c = CHR ''&'' then ''&amp;''
                      else if c = CHR ''<'' then ''&lt;''
                      else if c = CHR ''>'' then ''&gt;''
                      else if c = CHR 0x22 then ''&quot;''
                      else if c = CR then ''&#13;''
                      else if c = LF then ''&#10;''
                      else if c = CHR 0x09 then ''&#09;''
                      else [c]) s)"

text \<open>The namespace URI of a tag \<open>{uri}local\<close>, and its local name.\<close>

definition tag_uri :: "string \<Rightarrow> string option" where
  "tag_uri tg =
     (case tg of
        [] \<Rightarrow> None
      | c # cs \<Rightarrow> if c = CHR ''{'' then Some (takeWhile (\<lambda>x. x \<noteq> CHR ''}'') cs) else None)"

definition tag_local :: "string \<Rightarrow> string" where
  "tag_local tg =
     (case tag_uri tg of None \<Rightarrow> tg | Some uri \<Rightarrow> drop (length uri + 2) tg)"

definition prefix_of :: "string \<Rightarrow> string" where
  "prefix_of uri =
     (case map_of (map (\<lambda>pu. (snd pu, fst pu)) SOAP_NS) uri of Some p \<Rightarrow> p | None \<Rightarrow> ''ns0'')"

definition qname :: "string \<Rightarrow> string" where
  "qname tg =
     (case tag_uri tg of None \<Rightarrow> tg | Some uri \<Rightarrow> prefix_of uri @ '':'' @ tag_local tg)"

fun tags_of :: "xml \<Rightarrow> string list" where
  "tags_of (Element tg ats tx ch) = tg # concat (map tags_of ch)"

text \<open>The registered prefixes in sorted order, and the declarations of those in use.\<close>

definition namespace_decls :: "xml \<Rightarrow> string" where
  "namespace_decls rt =
     concat (map (\<lambda>p. case map_of SOAP_NS p of
                          None \<Rightarrow> []
                        | Some uri \<Rightarrow>
                            if Some uri \<in> set (map tag_uri (tags_of rt))
                            then '' xmlns:'' @ p @ ''='' @ [CHR 0x22] @ escape_attrib uri @ [CHR 0x22]
                            else [])
              [''a'', ''lcm'', ''rim'', ''s'', ''xds''])"

definition attrib_text :: "(string \<times> string) list \<Rightarrow> string" where
  "attrib_text ats =
     concat (map (\<lambda>kv. '' '' @ fst kv @ ''='' @ [CHR 0x22] @ escape_attrib (snd kv) @ [CHR 0x22])
               ats)"

fun serialize_xml :: "string \<Rightarrow> xml \<Rightarrow> string" where
  "serialize_xml decls (Element tg ats tx ch) =
     ''<'' @ qname tg @ decls @ attrib_text ats @
     (if \<not> falsy tx \<or> ch \<noteq> []
      then ''>'' @ escape_cdata (or_else tx []) @ concat (map (serialize_xml []) ch) @
           ''</'' @ qname tg @ ''>''
      else '' />'')"

definition tostring :: "xml \<Rightarrow> string" where
  "tostring rt =
     ''<?xml version='' @ [CHR 0x27] @ ''1.0'' @ [CHR 0x27] @ '' encoding='' @ [CHR 0x27] @
     ''utf-8'' @ [CHR 0x27] @ ''?>'' @ [LF] @ serialize_xml (namespace_decls rt) rt"

definition build_iti41_ebxml :: "env \<Rightarrow> SOAPInput \<Rightarrow> error + string" where
  "build_iti41_ebxml e obj = bind_err (iti41_tree e obj) (\<lambda>rt. Inr (tostring rt))"

definition build_soap_fault :: "string \<Rightarrow> string \<Rightarrow> string option \<Rightarrow> string" where
  "build_soap_fault code reason detail =
     tostring
       (Element ''{http://www.w3.org/2003/05/soap-envelope}Envelope'' [] None
          [Element ''{http://www.w3.org/2003/05/soap-envelope}Body'' [] None
             [Element ''{http://www.w3.org/2003/05/soap-envelope}Fault'' [] None
                ([Element ''Code'' [] None [Element ''Value'' [] (Some (''s:'' @ code)) []],
                  Element ''Reason'' [] None [Element ''Text'' [] (Some reason) []]] @
                 when_el (\<not> falsy detail)
                   (Element ''Detail'' [] None
                      [Element ''Error'' [] (Some (or_else detail [])) []]))]])"

subsection \<open>MTOM/XOP\<close>

text \<open>
  The first occurrence of \<open>p\<close> in a text: what stands before it and what follows it.
\<close>

fun find_sub :: "string \<Rightarrow> string \<Rightarrow> (string \<times> string) option" where
  "find_sub p [] = (if p = [] then Some ([], []) else None)"
| "find_sub p (c # cs) =
     (if prefix p (c # cs) then Some ([], drop (length p) (c # cs))
      else map_option (\<lambda>ba. (c # fst ba, snd ba)) (find_sub p cs))"

text \<open>
  \<open>re.sub(pattern, repl, text, flags=re.DOTALL)\<close> for the pattern
  \<open><Document id="ID"[^>]*>.*?</Document>\<close>, \<open>ID\<close> matched literally (\<open>re.escape\<close>), and a
  replacement without backslash. A match starts at an occurrence of \<open><Document id="ID"\<close>,
  runs over the characters other than \<open>>\<close> to the next \<open>>\<close>, and ends with the first
  \<open></Document>\<close> after it. When the first occurrence of the opening text has no \<open>>\<close> or
  no closing tag after it, no later one has, and the text stays as it is. The fuel bounds
  the number of replacements; the length of the text is enough.
\<close>

fun sub_document :: "nat \<Rightarrow> string \<Rightarrow> string \<Rightarrow> string \<Rightarrow> string" where
  "sub_document 0 ident repl txt = txt"
| "sub_document (Suc n) ident repl txt =
     (case find_sub (''<Document id='' @ [CHR 0x22] @ ident @ [CHR 0x22]) txt of
        None \<Rightarrow> txt
      | Some (before, after) \<Rightarrow>
          (case find_sub ''>'' after of
             None \<Rightarrow> txt
           | Some (attrs, inner) \<Rightarrow>
               (case find_sub ''</Document>'' inner of
                  None \<Rightarrow> txt
                | Some (body, rest) \<Rightarrow> before @ repl @ sub_document n ident repl rest)))"

definition build_iti41_mtom_envelope ::
  "env \<Rightarrow> string \<Rightarrow> string \<Rightarrow> string \<Rightarrow> string option" where
  "build_iti41_mtom_envelope e xml_text ident mime =
     (let xop_ref =
            ''<xop:Include href='' @ [CHR 0x22] @ ''cid:'' @ ident @ ''@example.com'' @
            [CHR 0x22] @ '' xmlns:xop='' @ [CHR 0x22] @
            ''http://www.w3.org/2004/08/xop/include'' @ [CHR 0x22] @ ''/>'';
          repl =
            ''<Document id='' @ [CHR 0x22] @ ident @ [CHR 0x22] @ '' mimeType='' @
            [CHR 0x22] @ mime @ [CHR 0x22] @ ''>'' @ xop_ref @ ''</Document>''
      in if backslash \<in> set repl then re_sub_escaped e ident repl xml_text
         else Some (sub_document (length xml_text) ident repl xml_text))"

text \<open>
  The multipart payload as \<open>MultipartEncoder\<close> receives it: the boundary and the fields in
  order, each with its name, file name, content and content type.
\<close>

record part =
  part_name :: string
  filename :: string
  data :: bytes
  content_type :: string

datatype body = Text string | Multipart string "part list"

record Response =
  content :: body
  media_type :: string
  status_code :: nat

definition create_mtom_multipart ::
  "env \<Rightarrow> string \<Rightarrow> bytes \<Rightarrow> string \<Rightarrow> string \<Rightarrow> body \<times> string" where
  "create_mtom_multipart e xml_envelope doc_bytes mime ident =
     (let boundary = ''uuid:'' @ uuid4 e 10;
          cid = ident @ ''@example.com''
      in (Multipart boundary
            [\<lparr>part_name = ''rootpart'', filename = ''envelope.xml'',
              data = utf8_encode xml_envelope,
              content_type =
                ''application/xop+xml; type='' @ [CHR 0x22] @ ''text/xml'' @ [CHR 0x22] @
                ''; charset=UTF-8''\<rparr>,
             \<lparr>part_name = cid, filename = ''document.bin'', data = doc_bytes,
              content_type = mime\<rparr>],
          ''multipart/related; type='' @ [CHR 0x22] @ ''application/xop+xml'' @ [CHR 0x22] @
          ''; boundary='' @ [CHR 0x22] @ boundary @ [CHR 0x22]))"

subsection \<open>The endpoint \<open>api_json_to_iti41\<close>\<close>

definition fault_response :: "env \<Rightarrow> error \<Rightarrow> Response" where
  "fault_response e err =
     \<lparr>content = Text (build_soap_fault ''Receiver'' ''Processing Failure'' (Some (exc_text e err))),
      media_type = ''application/soap+xml'', status_code = 500\<rparr>"

text \<open>
  An \<open>HTTPException\<close> is raised again; any other exception becomes the SOAP fault. The
  size in KiB is a float: the division by 1024.0 is exact, so the comparison is that of
  the real numbers.
\<close>

definition api_json_to_iti41 :: "env \<Rightarrow> SOAPInput \<Rightarrow> error + Response" where
  "api_json_to_iti41 e payload =
     (case build_iti41_ebxml e payload of
        Inl (HTTPException code detail) \<Rightarrow> Inl (HTTPException code detail)
      | Inl err \<Rightarrow> Inr (fault_response e err)
      | Inr xml_text \<Rightarrow>
          (case document_base64 payload of
             None \<Rightarrow> Inr \<lparr>content = Text xml_text, media_type = ''application/xml'', status_code = 200\<rparr>
           | Some d \<Rightarrow>
               if d = []
               then Inr \<lparr>content = Text xml_text, media_type = ''application/xml'', status_code = 200\<rparr>
               else
                 (let doc_bytes = decode_document e d;
                      doc_size_kb = real (length doc_bytes) / 1024;
                      ident = or_else (unique_id payload) ''urn:uuid:doc-1''
                  in if doc_size_kb < 256
                     then Inr \<lparr>content = Text xml_text, media_type = ''application/xml'',
                               status_code = 200\<rparr>
                     else
                       (case build_iti41_mtom_envelope e xml_text ident
                               (or_else (mime_type payload) ''text/xml'') of
                          None \<Rightarrow> Inr (fault_response e ReError)
                        | Some xml_xop \<Rightarrow>
                            (let mh = create_mtom_multipart e xml_xop doc_bytes
                                        (or_else (mime_type payload) ''text/xml'') ident
                             in Inr \<lparr>content = fst mh, media_type = snd mh,
                                      status_code = 200\<rparr>)))))"

subsection \<open>Notions used in the statements\<close>

text \<open>
  Under key \<open>k\<close> the dictionary holds a value that is neither a string nor \<open>None\<close>.
\<close>

definition not_text :: "pydict \<Rightarrow> string \<Rightarrow> bool" where
  "not_text d k = (case map_of d k of Some (POther r) \<Rightarrow> True | _ \<Rightarrow> False)"

text \<open>
  \<open>hl7_full_to_json(json_to_hl7_full(payload))["patient"].get("identifiers")\<close>.
\<close>

definition roundtrip_identifiers :: "env \<Rightarrow> HL7FullInput \<Rightarrow> error + jv option" where
  "roundtrip_identifiers e payload =
     bind_err (json_to_hl7_full e payload) (\<lambda>hl7.
     bind_err (hl7_full_to_json hl7) (\<lambda>parsed.
       Inr (map_of (patient_j parsed) ''identifiers'')))"

text \<open>A segment that starts with the name \<open>nm\<close> and a field separator.\<close>

definition tagged :: "string \<Rightarrow> string \<Rightarrow> bool" where
  "tagged nm seg = (\<exists>tail. seg = nm @ CHR ''|'' # tail)"

text \<open>
  A segment that the parser keeps (\<open>s.strip()\<close> is not empty) and whose name is none of
  \<open>PID\<close>, \<open>PV1\<close>, \<open>PV2\<close>.
\<close>

definition simple_seg :: "string \<Rightarrow> bool" where
  "simple_seg s =
     (seg_name s \<noteq> ''PID'' \<and> seg_name s \<noteq> ''PV2'' \<and> seg_name s \<noteq> ''PV1'' \<and> strip_truthy s)"


text \<open>\<open>x.get(k)\<close> on an element.\<close>

definition attr :: "xml \<Rightarrow> string \<Rightarrow> string option" where
  "attr x k = map_of (el_attrib x) k"


definition slot_values :: "xml \<Rightarrow> string option list" where
  "slot_values slot = map el_text (concat (map el_children (el_children slot)))"



subsection \<open>An environment for concrete evaluations\<close>

text \<open>
  The library functions of \<open>example_env\<close> are tabulated on the inputs evaluated in this
  theory, where they return what CPython returns: \<open>2025-10-21T12:30:00+00:00\<close> is an
  ISO 8601 timestamp and the other strings tried do not parse; the base64 text of 262143
  bytes \<open>A\<close> is 87381 times \<open>QUFB\<close>, and that of 262144 bytes \<open>A\<close> is the same followed
  by \<open>QQ==\<close>; the SHA-1 digests are those of these two byte strings.
\<close>

definition example_now :: datetime where
  "example_now = \<lparr>year = 2026, month = 1, day = 2, hour = 3, minute = 4, second = 5\<rparr>"

definition example_fromisoformat :: "string \<Rightarrow> datetime option" where
  "example_fromisoformat s =
     (if s = ''2025-10-21T12:30:00+00:00''
      then Some \<lparr>year = 2025, month = 10, day = 21, hour = 12, minute = 30, second = 0\<rparr>
      else None)"

definition doc_262143 :: bytes where
  "doc_262143 = replicate 262143 65"

definition doc_262144 :: bytes where
  "doc_262144 = replicate 262144 65"

definition b64_262143 :: string where
  "b64_262143 = concat (replicate 87381 ''QUFB'')"

definition b64_262144 :: string where
  "b64_262144 = concat (replicate 87381 ''QUFB'') @ ''QQ==''"

definition example_b64decode :: "string \<Rightarrow> bytes option" where
  "example_b64decode s =
     (if s = b64_262144 then Some doc_262144
      else if s = b64_262143 then Some doc_262143
      else None)"

definition example_b64encode :: "bytes \<Rightarrow> string" where
  "example_b64encode b = (if b = doc_262144 then b64_262144 else b64_262143)"

definition example_sha1 :: "bytes \<Rightarrow> string" where
  "example_sha1 b =
     (if b = doc_262144 then ''07934f1f000798d4405c6ddda91306172c305038''
      else ''abc8516910a837748a33d2380553b924f670345e'')"

definition example_uuid4 :: "nat \<Rightarrow> string" where
  "example_uuid4 k = ''6f1c2a4e-0b7d-4c3a-9e5f-00000000000'' @ [digit_chr k]"

definition example_env :: env where
  "example_env =
     \<lparr>utcnow = (\<lambda>k. example_now), uuid4 = example_uuid4,
      fromisoformat = example_fromisoformat, b64decode = example_b64decode,
      b64encode = example_b64encode, sha1_hexdigest = example_sha1,
      re_sub_escaped = (\<lambda>doc_id repl text. None), exc_text = (\<lambda>err. [])\<rparr>"

text \<open>
  The message of the repository's tests (\<open>build_base\<close>), with the admission at the time of
  the message, and the segments that \<open>json_to_hl7_full\<close> builds for it.
\<close>

definition example_patient :: PatientModel where
  "example_patient =
     \<lparr>identifiers =
        [\<lparr>id' = ''NHIC123'', assigning_authority = Some ASSIGNING_AUTHORITY_HEALTH_ID,
          type' = None\<rparr>],
      name_family = Some ''Doe'', name_given = Some ''John'', middle_name = None,
      dob = Some ''19800101'', sex = Some ''M''\<rparr>"

definition example_payload :: HL7FullInput where
  "example_payload =
     \<lparr>header =
        \<lparr>event = ''ADT^A01'', sending_app_oid = Some ''2.16.840.1.113883.3.3731.test'',
         sending_facility = Some ''HOSP'', receiving_app = None, receiving_facility = None,
         message_datetime = Some ''2025-10-21T12:30:00Z'', message_control_id = Some ''MSG01'',
         version = Some HL7_VERSION\<rparr>,
      patient = example_patient,
      pd1 = None,
      visit = Some
        \<lparr>patient_class = Some ''I'', location = Some ''Ward^01^01'',
         admitting_doctor_id = None, admitting_doctor_family = None,
         admitting_doctor_given = None, attending_doctor_id = Some ''123'',
         attending_doctor_family = Some ''Ali'', attending_doctor_given = Some ''Ahmed'',
         visit_number = Some ''V1'', admit_datetime = Some ''2025-10-21T12:30:00Z'',
         discharge_datetime = None\<rparr>,
      mrg = None, al1 = None, dg1 = None, pr1 = None, nk1 = None, gt1 = None, in1 = None\<rparr>"

definition example_segments :: "string list" where
  "example_segments =
     [''MSH|^~'' @ [backslash] @ ''&|2.16.840.1.113883.3.3731.test|HOSP|||20251021123000||ADT^A01|MSG01|P|2.5.1'',
      ''EVN|A01|20251021123000'',
      ''PID|1||NHIC123^^^2.16.840.1.113883.3.3731.1.1.100.1^ISO||Doe^John^||19800101|M'',
      ''PV1|1|I|Ward^01^01||||123^Ali^Ahmed|||||||||||||||V1|20251021123000|'',
      ''PV2|||20251021123000|'']"

text \<open>The same message with a number as the allergen of an \<open>AL1\<close> entry.\<close>

definition al1_number_payload :: HL7FullInput where
  "al1_number_payload = example_payload\<lparr>al1 := Some [[(''allergen'', POther ''5'')]]\<rparr>"


section \<open>Properties\<close>

lemma length_split_on: "length (split_on sep s) = Suc (length (filter (\<lambda>c. c = sep) s))"
  by (induction s) (auto split: list.splits)

lemma replace_chr_Nil: "replace_chr old new [] = []"
  by (simp add: replace_chr_def)

lemma replace_chr_Cons:
  "replace_chr old new (c # cs) = (if c = old then new else [c]) @ replace_chr old new cs"
  by (simp add: replace_chr_def)

lemma replace_chr_append:
  "replace_chr old new (xs @ ys) = replace_chr old new xs @ replace_chr old new ys"
  by (simp add: replace_chr_def)

lemma escape_hl7_field_Cons:
  "escape_hl7_field (Some (c # cs)) = escape_chr c @ escape_hl7_field (Some cs)"
  by (simp add: escape_hl7_field_def escape_chr_def replace_chr_Cons replace_chr_append
      replace_chr_Nil)

lemma escape_hl7_field_map: "escape_hl7_field (Some s) = concat (map escape_chr s)"
proof (induction s)
  case Nil
  show ?case by (simp add: escape_hl7_field_def replace_chr_Nil)
next
  case (Cons c cs)
  then show ?case by (simp add: escape_hl7_field_Cons)
qed

lemma bar_notin_escape_chr: "CHR ''|'' \<notin> set (escape_chr c)"
  by (simp add: escape_chr_def)

lemma bar_notin_escape: "CHR ''|'' \<notin> set (escape_hl7_field (Some s))"
  by (simp add: escape_hl7_field_map bar_notin_escape_chr)

text \<open>
  C8. \<open>escape_hl7_field\<close> maps an absent input to the empty string and otherwise
  replaces each \<open>|\<close>, \<open>^\<close>, \<open>&\<close>, \<open>~\<close> by \<open>\F\\<close>, \<open>\S\\<close>, \<open>\T\\<close>, \<open>\R\\<close> and nothing else.
  The output has no raw \<open>|\<close>, so a segment with the escaped text embedded anywhere splits
  on \<open>|\<close> into as many fields as the segment without it.
\<close>

theorem escape_hl7_field_structurally_safe:
  "escape_hl7_field None = [] \<and>
   escape_hl7_field (Some s) = concat (map escape_chr s) \<and>
   escape_chr (CHR ''|'') = [backslash, CHR ''F'', backslash] \<and>
   escape_chr (CHR ''^'') = [backslash, CHR ''S'', backslash] \<and>
   escape_chr (CHR ''&'') = [backslash, CHR ''T'', backslash] \<and>
   escape_chr (CHR ''~'') = [backslash, CHR ''R'', backslash] \<and>
   (c \<in> {CHR ''|'', CHR ''^'', CHR ''&'', CHR ''~''} \<or> escape_chr c = [c]) \<and>
   CHR ''|'' \<notin> set (escape_hl7_field (Some s)) \<and>
   length (split_on (CHR ''|'') (pre @ escape_hl7_field (Some s) @ post)) =
     length (split_on (CHR ''|'') (pre @ post))"
proof -
  have none: "escape_hl7_field None = []"
    by (simp add: escape_hl7_field_def)
  have "filter (\<lambda>c. c = CHR ''|'') (escape_hl7_field (Some s)) = []"
    using bar_notin_escape [of s] by (auto simp: filter_empty_conv)
  then have count: "length (split_on (CHR ''|'') (pre @ escape_hl7_field (Some s) @ post)) =
     length (split_on (CHR ''|'') (pre @ post))"
    by (simp add: length_split_on)
  have other: "c \<in> {CHR ''|'', CHR ''^'', CHR ''&'', CHR ''~''} \<or> escape_chr c = [c]"
    by (simp add: escape_chr_def)
  have table: "escape_chr (CHR ''|'') = [backslash, CHR ''F'', backslash]"
    "escape_chr (CHR ''^'') = [backslash, CHR ''S'', backslash]"
    "escape_chr (CHR ''&'') = [backslash, CHR ''T'', backslash]"
    "escape_chr (CHR ''~'') = [backslash, CHR ''R'', backslash]"
    by (simp_all add: escape_chr_def)
  show ?thesis
    using none escape_hl7_field_map [of s] table other bar_notin_escape [of s] count
    by blast
qed


lemma zpad_numeral:
  "zpad (numeral k) n = zpad (pred_numeral k) (n div 10) @ [digit_chr n]"
proof -
  have "zpad (Suc (pred_numeral k)) n = zpad (pred_numeral k) (n div 10) @ [digit_chr n]"
    by (rule zpad.simps(2))
  then show ?thesis
    by (simp only: numeral_eq_Suc [symmetric])
qed


lemma digit_chr_is_digit: "is_digit (digit_chr n)"
  unfolding is_digit_def digit_chr_def by (rule nth_mem) simp

text \<open>
  C3. On \<open>1980-01-01T00:00:00Z\<close> the pattern \<open>[-:T].*\<close> matches at the first \<open>-\<close> and
  runs to the end of the string, so \<open>normalize_dob\<close> returns \<open>1980\<close>; it returns the empty
  string and an absent value as they are.
\<close>

theorem normalize_dob_iso_timestamp:
  "normalize_dob (Some ''1980-01-01T00:00:00Z'') = Some ''1980'' \<and>
   normalize_dob (Some ''19800101'') = Some ''19800101'' \<and>
   normalize_dob (Some []) = Some [] \<and>
   normalize_dob None = None"
  by (simp add: normalize_dob_def falsy_def)






subsection \<open>The parser\<close>

lemma split_on_not_Nil: "split_on sep s \<noteq> []"
  by (induction s) (auto split: list.splits)

lemma decode_fields_other:
  "nm \<noteq> ''PID'' \<Longrightarrow> nm \<noteq> ''PV2'' \<Longrightarrow>
   \<exists>r'. decode_fields r (nm # rest) = Inr r' \<and> patient_j r' = patient_j r \<and>
     (if nm = ''PV1'' then visit_j r' \<noteq> None else visit_j r' = visit_j r)"
  by (simp add: decode_fields_def)

lemma decode_fields_PID:
  "\<exists>r'. decode_fields r (''PID'' # rest) = Inr r' \<and> visit_j r' = visit_j r \<and>
     patient_j r' =
       [(''identifiers'', L [if length rest > 2 then rest ! 2 else []]),
        (''name'', fld (''PID'' # rest) 5), (''dob'', fld (''PID'' # rest) 7),
        (''sex'', fld (''PID'' # rest) 8)]"
  by (simp add: decode_fields_def)

lemma decode_fields_PV2_None:
  "visit_j r = None \<Longrightarrow> decode_fields r (''PV2'' # rest) = Inl TypeError"
  by (simp add: decode_fields_def)

lemma decode_fields_PV2_Some:
  "visit_j r = Some v \<Longrightarrow>
   \<exists>r'. decode_fields r (''PV2'' # rest) = Inr r' \<and> patient_j r' = patient_j r \<and>
     visit_j r' \<noteq> None"
  by (simp add: decode_fields_def)

lemma decode_fields_not_IndexError:
  "flds \<noteq> [] \<Longrightarrow> decode_fields r flds \<noteq> Inl IndexError"
  by (cases flds) (auto simp: decode_fields_def split: option.splits)

lemma seg_name_split: "split_on (CHR ''|'') seg = seg_name seg # tl (split_on (CHR ''|'') seg)"
  using split_on_not_Nil [of "CHR ''|''" seg] by (simp add: seg_name_def)

lemma decode_segs_PV2_unguarded:
  "visit_j r = None \<Longrightarrow> i < length segs \<Longrightarrow> seg_name (segs ! i) = ''PV2'' \<Longrightarrow>
   (\<forall>j<i. seg_name (segs ! j) \<noteq> ''PV1'') \<Longrightarrow> decode_segs r segs = Inl TypeError"
proof (induction segs arbitrary: r i)
  case Nil
  then show ?case by simp
next
  case (Cons seg segs)
  let ?flds = "split_on (CHR ''|'') seg"
  have flds: "?flds = seg_name seg # tl ?flds"
    by (rule seg_name_split)
  show ?case
  proof (cases "seg_name seg = ''PV2''")
    case True
    then have "decode_fields r ?flds = Inl TypeError"
      using flds decode_fields_PV2_None [OF Cons.prems(1), of "tl ?flds"] by simp
    then show ?thesis by (simp add: bind_err_def)
  next
    case False
    then have i: "i \<noteq> 0"
      using Cons.prems(3) by (cases i) auto
    then obtain i' where i': "i = Suc i'"
      by (cases i) auto
    have notPV1: "seg_name seg \<noteq> ''PV1''"
      using Cons.prems(4) i' by auto
    have notPID_or: "seg_name seg = ''PID'' \<or> seg_name seg \<noteq> ''PID''" by simp
    obtain r' where r': "decode_fields r ?flds = Inr r'" "visit_j r' = None"
    proof (cases "seg_name seg = ''PID''")
      case True
      with decode_fields_PID [of r "tl ?flds"] flds Cons.prems(1)
      show ?thesis using that by auto
    next
      case notPID: False
      from decode_fields_other [OF notPID False, of r "tl ?flds"] notPV1 flds Cons.prems(1)
      show ?thesis using that by auto
    qed
    have "decode_segs r' segs = Inl TypeError"
    proof (rule Cons.IH [OF r'(2), of i'])
      show "i' < length segs" using Cons.prems(2) i' by simp
      show "seg_name (segs ! i') = ''PV2''" using Cons.prems(3) i' by simp
      show "\<forall>j<i'. seg_name (segs ! j) \<noteq> ''PV1''"
        using Cons.prems(4) i' by auto
    qed
    then show ?thesis using r'(1) by (simp add: bind_err_def)
  qed
qed

lemma decode_segs_not_IndexError: "decode_segs r segs \<noteq> Inl IndexError"
proof (induction segs arbitrary: r)
  case Nil
  show ?case by simp
next
  case (Cons seg segs)
  have "decode_fields r (split_on (CHR ''|'') seg) \<noteq> Inl IndexError"
    by (rule decode_fields_not_IndexError) (rule split_on_not_Nil)
  then show ?case
    using Cons.IH by (cases "decode_fields r (split_on (CHR ''|'') seg)") (auto simp: bind_err_def)
qed

lemma fld_padding: "fld (flds @ replicate n []) k = fld flds k"
  by (auto simp: fld_def nth_append)

lemma decode_fields_padding:
  "decode_fields r ((nm # rest) @ replicate n []) = decode_fields r (nm # rest)"
proof -
  have f: "\<And>k. fld (nm # rest @ replicate n []) k = fld (nm # rest) k"
    using fld_padding [of "nm # rest" n] by simp
  have l3: "(if length (nm # rest @ replicate n []) > 3 then (nm # rest @ replicate n []) ! 3 else [])
      = (if length (nm # rest) > 3 then (nm # rest) ! 3 else [])"
    using f [of 3] by (simp add: fld_def)
  show ?thesis
    unfolding decode_fields_def by (simp only: append_Cons list.case f l3)
qed

text \<open>
  C10. \<open>hl7_full_to_json\<close> is not total: when a segment named \<open>PV2\<close> stands in the message
  with no segment named \<open>PV1\<close> before it, the decode raises \<open>TypeError\<close> and returns no
  result. \<open>result["visit"]\<close> is still \<open>None\<close> there, \<open>setdefault\<close> returns it, and the item
  assignment fails.
\<close>

theorem hl7_full_to_json_PV2_without_PV1:
  assumes "i < length (segments_of msg)"
    and "seg_name (segments_of msg ! i) = ''PV2''"
    and "\<forall>j<i. seg_name (segments_of msg ! j) \<noteq> ''PV1''"
  shows "hl7_full_to_json msg = Inl TypeError"
  unfolding hl7_full_to_json_def
  using assms by (intro decode_segs_PV2_unguarded [of _ i]) (simp_all add: initial_result_def)

theorem hl7_full_to_json_PV2_without_PV1_witness:
  "hl7_full_to_json (''MSH|^~&'' @ [CR] @ ''PV2|||20250101|20250102'') = Inl TypeError"
proof -
  let ?msg = "''MSH|^~&'' @ [CR] @ ''PV2|||20250101|20250102''"
  have segs: "segments_of ?msg = [''MSH|^~&'', ''PV2|||20250101|20250102'']"
    by (simp add: segments_of_def strip_truthy_def is_space_def)
  have 1: "1 < length (segments_of ?msg)"
    unfolding segs by simp
  have 2: "seg_name (segments_of ?msg ! 1) = ''PV2''"
    unfolding segs by (simp add: seg_name_def)
  have 3: "\<forall>j<1. seg_name (segments_of ?msg ! j) \<noteq> ''PV1''"
    unfolding segs by (simp add: seg_name_def)
  show ?thesis
    by (rule hl7_full_to_json_PV2_without_PV1 [OF 1 2 3])
qed

text \<open>
  C9. No indexed access of the parser fails: a decode never ends in \<open>IndexError\<close>, a guarded
  access beyond the end of the field list reads as the empty string, and so a segment
  decodes exactly as the same segment with empty fields appended. A \<open>PID\<close> segment with
  two fields gives an empty identifier, name, date of birth and sex.
\<close>

theorem hl7_full_to_json_guarded_access:
  "hl7_full_to_json msg \<noteq> Inl IndexError \<and>
   fld flds (length flds + k) = S [] \<and>
   decode_fields r ((nm # rest) @ replicate n []) = decode_fields r (nm # rest) \<and>
   hl7_full_to_json ''PID|1'' =
     Inr (initial_result\<lparr>patient_j :=
       [(''identifiers'', L [[]]), (''name'', S []), (''dob'', S []), (''sex'', S [])]\<rparr>)"
proof -
  have "hl7_full_to_json ''PID|1'' =
     Inr (initial_result\<lparr>patient_j :=
       [(''identifiers'', L [[]]), (''name'', S []), (''dob'', S []), (''sex'', S [])]\<rparr>)"
    by (simp add: hl7_full_to_json_def segments_of_def strip_truthy_def is_space_def
        decode_fields_def fld_def bind_err_def)
  moreover have "fld flds (length flds + k) = S []"
    by (simp add: fld_def)
  ultimately show ?thesis
    using decode_segs_not_IndexError [of initial_result "segments_of msg"]
      decode_fields_padding [of r nm rest n]
    by (simp add: hl7_full_to_json_def)
qed


subsection \<open>The builder, and the builder followed by the parser\<close>

lemma escape_any_fails:
  "(\<exists>err. escape_any (dict_get d k (PStr dflt)) = Inl err) = not_text d k"
  by (auto simp: escape_any_def dict_get_def not_text_def split: option.splits pyval.splits)

lemma bind_err_fails:
  "(\<exists>err. bind_err m f = Inl err) =
     ((\<exists>err. m = Inl err) \<or> (\<exists>x. m = Inr x \<and> (\<exists>err. f x = Inl err)))"
  by (cases m) (auto simp: bind_err_def)

lemma not_Inl_conv: "(\<nexists>err. m = Inl err) = (\<exists>x. m = Inr x)"
  by (cases m) auto

lemma escape_any_ok:
  "(\<exists>x. escape_any (dict_get d k (PStr dflt)) = Inr x) = (\<not> not_text d k)"
  by (auto simp: escape_any_def dict_get_def not_text_def split: option.splits pyval.splits)

lemma al1_segment_fails:
  "(\<exists>err. al1_segment a = Inl err) =
     (not_text a ''allergen'' \<or> not_text a ''reaction'' \<or> not_text a ''severity'')"
  by (simp add: al1_segment_def bind_err_fails escape_any_fails escape_any_ok) blast

lemma dg1_segment_fails:
  "(\<exists>err. dg1_segment d = Inl err) = not_text d ''diagnosis_desc''"
  by (simp add: dg1_segment_def bind_err_fails escape_any_fails)

lemma pr1_segment_fails:
  "(\<exists>err. pr1_segment d = Inl err) = not_text d ''procedure_desc''"
  by (simp add: pr1_segment_def bind_err_fails escape_any_fails)

lemma map_err_fails:
  "(\<exists>err. map_err f xs = Inl err) = (\<exists>x \<in> set xs. \<exists>err. f x = Inl err)"
proof (induction xs)
  case Nil
  show ?case by simp
next
  case (Cons x xs)
  show ?case
  proof (cases "f x")
    case (Inl e)
    then show ?thesis by (auto simp: bind_err_def)
  next
    case (Inr y)
    show ?thesis
    proof (cases "map_err f xs")
      case (Inl e)
      with Inr Cons.IH show ?thesis by (auto simp: bind_err_def)
    next
      case r: (Inr ys)
      with Inr Cons.IH show ?thesis by (auto simp: bind_err_def)
    qed
  qed
qed

lemma build_pid_fails:
  "(\<exists>err. build_pid p = Inl err) =
     (identifiers p \<noteq> [] \<and>
      assigning_authority (hd (identifiers p)) \<noteq> Some ASSIGNING_AUTHORITY_HEALTH_ID)"
  by (auto simp: build_pid_def bind_err_def Let_def split: list.splits)

lemma json_to_hl7_full_fails:
  "(\<exists>err. json_to_hl7_full e payload = Inl err) =
     ((\<exists>err. build_pid (patient payload) = Inl err) \<or>
      (\<exists>a \<in> set (opt_list (al1 payload)).
         not_text a ''allergen'' \<or> not_text a ''reaction'' \<or> not_text a ''severity'') \<or>
      (\<exists>d \<in> set (opt_list (dg1 payload)). not_text d ''diagnosis_desc'') \<or>
      (\<exists>x \<in> set (opt_list (pr1 payload)). not_text x ''procedure_desc''))"
proof -
  have "(\<exists>err. json_to_hl7_full e payload = Inl err) =
     ((\<exists>err. build_pid (patient payload) = Inl err) \<or>
      (\<exists>err. map_err al1_segment (opt_list (al1 payload)) = Inl err) \<or>
      (\<exists>err. map_err dg1_segment (opt_list (dg1 payload)) = Inl err) \<or>
      (\<exists>err. map_err pr1_segment (opt_list (pr1 payload)) = Inl err))"
    unfolding json_to_hl7_full_def hl7_segments_def Let_def
    by (cases "build_pid (patient payload)";
        cases "map_err al1_segment (opt_list (al1 payload))";
        cases "map_err dg1_segment (opt_list (dg1 payload))";
        cases "map_err pr1_segment (opt_list (pr1 payload))")
       (simp_all add: bind_err_def)
  then show ?thesis
    by (simp only: map_err_fails al1_segment_fails dg1_segment_fails pr1_segment_fails)
qed

lemma build_pid_first_only:
  "assigning_authority first = Some ASSIGNING_AUTHORITY_HEALTH_ID \<Longrightarrow>
   build_pid (p\<lparr>identifiers := first # others\<rparr>) = build_pid (p\<lparr>identifiers := [first]\<rparr>) \<and>
   (\<exists>tail. build_pid (p\<lparr>identifiers := first # others\<rparr>) =
      Inr (''PID|1||'' @ id' first @ ''^^^'' @ ASSIGNING_AUTHORITY_HEALTH_ID @ ''^ISO||'' @ tail))"
  by (simp add: build_pid_def bind_err_def Let_def fmt_opt_def)

text \<open>
  C4 (as amended). \<open>build_pid\<close> fails exactly when the identifier list is not empty and its
  first identifier's assigning authority differs from the health-ID OID. The whole encoding
  \<open>json_to_hl7_full\<close> fails exactly when \<open>build_pid\<close> fails or a free-text value that it
  escapes (allergen, reaction or severity of an \<open>AL1\<close> entry, the description of a \<open>DG1\<close> or
  \<open>PR1\<close> entry) is neither a string nor null. When the first identifier has the OID, the
  \<open>PID\<close> segment starts with \<open>PID|1||<id>^^^<OID>^ISO||\<close> and is the one built from the first
  identifier alone.
\<close>

theorem hl7_encoding_failure:
  "((\<exists>err. build_pid p = Inl err) =
      (identifiers p \<noteq> [] \<and>
       assigning_authority (hd (identifiers p)) \<noteq> Some ASSIGNING_AUTHORITY_HEALTH_ID)) \<and>
   ((\<exists>err. json_to_hl7_full e payload = Inl err) =
      ((\<exists>err. build_pid (patient payload) = Inl err) \<or>
       (\<exists>a \<in> set (opt_list (al1 payload)).
          not_text a ''allergen'' \<or> not_text a ''reaction'' \<or> not_text a ''severity'') \<or>
       (\<exists>d \<in> set (opt_list (dg1 payload)). not_text d ''diagnosis_desc'') \<or>
       (\<exists>x \<in> set (opt_list (pr1 payload)). not_text x ''procedure_desc''))) \<and>
   (assigning_authority first = Some ASSIGNING_AUTHORITY_HEALTH_ID \<longrightarrow>
      build_pid (p\<lparr>identifiers := first # others\<rparr>) =
        build_pid (p\<lparr>identifiers := [first]\<rparr>) \<and>
      (\<exists>tail. build_pid (p\<lparr>identifiers := first # others\<rparr>) =
         Inr (''PID|1||'' @ id' first @ ''^^^'' @ ASSIGNING_AUTHORITY_HEALTH_ID @ ''^ISO||'' @
              tail)))"
  using build_pid_fails [of p] json_to_hl7_full_fails [of e payload]
    build_pid_first_only [where first = first and p = p and others = others]
  by blast

theorem hl7_encoding_failure_witness:
  "build_pid (example_patient\<lparr>identifiers := hd (identifiers example_patient) #
       [\<lparr>id' = ''X1'', assigning_authority = None, type' = None\<rparr>]\<rparr>) =
     Inr ''PID|1||NHIC123^^^2.16.840.1.113883.3.3731.1.1.100.1^ISO||Doe^John^||19800101|M'' \<and>
   build_pid example_patient =
     Inr ''PID|1||NHIC123^^^2.16.840.1.113883.3.3731.1.1.100.1^ISO||Doe^John^||19800101|M''"
proof -
  let ?first = "hd (identifiers example_patient)"
  have auth: "assigning_authority ?first = Some ASSIGNING_AUTHORITY_HEALTH_ID"
    by (simp add: example_patient_def)
  have one: "example_patient\<lparr>identifiers := [?first]\<rparr> = example_patient"
    by (simp add: example_patient_def)
  have val: "build_pid example_patient =
     Inr ''PID|1||NHIC123^^^2.16.840.1.113883.3.3731.1.1.100.1^ISO||Doe^John^||19800101|M''"
    by (simp add: example_patient_def build_pid_def bind_err_def Let_def fmt_opt_def
        ASSIGNING_AUTHORITY_HEALTH_ID_def falsy_def or_else_def escape_hl7_field_def
        replace_chr_def)
  from hl7_encoding_failure [where p = example_patient and first = ?first
      and others = "[\<lparr>id' = ''X1'', assigning_authority = None, type' = None\<rparr>]"] auth
  have "build_pid (example_patient\<lparr>identifiers := ?first #
       [\<lparr>id' = ''X1'', assigning_authority = None, type' = None\<rparr>]\<rparr>) =
     build_pid (example_patient\<lparr>identifiers := [?first]\<rparr>)"
    by blast
  then show ?thesis
    by (simp only: one val)
qed

theorem hl7_encoding_fails_on_number:
  "assigning_authority (hd (identifiers (patient al1_number_payload))) =
     Some ASSIGNING_AUTHORITY_HEALTH_ID \<and>
   json_to_hl7_full example_env al1_number_payload = Inl AttributeError"
  by (simp add: al1_number_payload_def example_payload_def example_patient_def
      json_to_hl7_full_def hl7_segments_def build_pid_def bind_err_def Let_def opt_list_def
      al1_segment_def escape_any_def dict_get_def)

lemma split_on_append_sep:
  "sep \<notin> set a \<Longrightarrow> split_on sep (a @ sep # b) = a # split_on sep b"
  by (induction a) auto

lemma split_on_no_sep: "sep \<notin> set a \<Longrightarrow> split_on sep a = [a]"
  by (induction a) auto

lemma split_on_append_sep':
  "sep \<notin> set a \<Longrightarrow> split_on sep (a @ [sep] @ b) = a # split_on sep b"
  using split_on_append_sep [of sep a b] by simp

lemma split_join:
  "segs \<noteq> [] \<Longrightarrow> \<forall>s \<in> set segs. sep \<notin> set s \<Longrightarrow>
   split_on sep (join_chr sep segs) = segs"
proof (induction sep segs rule: join_chr.induct)
  case (1 sep)
  then show ?case by simp
next
  case (2 sep x)
  then show ?case by (simp add: split_on_no_sep)
next
  case (3 sep x y ys)
  then show ?case by (simp add: split_on_append_sep)
qed

lemma tagged_seg_name: "tagged nm seg \<Longrightarrow> CHR ''|'' \<notin> set nm \<Longrightarrow> seg_name seg = nm"
  by (auto simp: tagged_def seg_name_def split_on_append_sep)

lemma tagged_strip_truthy:
  "tagged (c # nm) seg \<Longrightarrow> \<not> is_space c \<Longrightarrow> strip_truthy seg"
  by (auto simp: tagged_def strip_truthy_def)

lemma decode_segs_append:
  "decode_segs r (xs @ ys) = bind_err (decode_segs r xs) (\<lambda>r'. decode_segs r' ys)"
proof (induction xs arbitrary: r)
  case Nil
  show ?case by (simp add: bind_err_def)
next
  case (Cons x xs)
  show ?case
    by (cases "decode_fields r (split_on (CHR ''|'') x)") (simp_all add: bind_err_def Cons.IH)
qed

lemma decode_segs_simple:
  "\<forall>s \<in> set segs. seg_name s \<noteq> ''PID'' \<and> seg_name s \<noteq> ''PV2'' \<and> seg_name s \<noteq> ''PV1'' \<Longrightarrow>
   \<exists>r'. decode_segs r segs = Inr r' \<and> patient_j r' = patient_j r \<and> visit_j r' = visit_j r"
proof (induction segs arbitrary: r)
  case Nil
  show ?case by simp
next
  case (Cons seg segs)
  let ?flds = "split_on (CHR ''|'') seg"
  have flds: "?flds = seg_name seg # tl ?flds"
    by (rule seg_name_split)
  have n: "seg_name seg \<noteq> ''PID''" "seg_name seg \<noteq> ''PV2''" "seg_name seg \<noteq> ''PV1''"
    using Cons.prems by auto
  from decode_fields_other [OF n(1) n(2), of r "tl ?flds"] n(3) flds
  obtain r1 where r1: "decode_fields r ?flds = Inr r1" "patient_j r1 = patient_j r"
      "visit_j r1 = visit_j r"
    by auto
  from Cons.IH [of r1] Cons.prems
  obtain r2 where "decode_segs r1 segs = Inr r2" "patient_j r2 = patient_j r1"
      "visit_j r2 = visit_j r1"
    by auto
  with r1 show ?case by (simp add: bind_err_def)
qed

lemma decode_segs_visit:
  assumes "tagged ''PV1'' a" "tagged ''PV2'' b"
  shows "\<exists>r'. decode_segs r [a, b] = Inr r' \<and> patient_j r' = patient_j r"
proof -
  let ?fa = "split_on (CHR ''|'') a" and ?fb = "split_on (CHR ''|'') b"
  have a: "?fa = ''PV1'' # tl ?fa"
    using seg_name_split [of a] tagged_seg_name [OF assms(1)] by simp
  have b: "?fb = ''PV2'' # tl ?fb"
    using seg_name_split [of b] tagged_seg_name [OF assms(2)] by simp
  from decode_fields_other [of "''PV1''" r "tl ?fa"] a
  obtain r1 where r1: "decode_fields r ?fa = Inr r1" "patient_j r1 = patient_j r"
      "visit_j r1 \<noteq> None"
    by auto
  then obtain v where v: "visit_j r1 = Some v" by auto
  from decode_fields_PV2_Some [OF v, of "tl ?fb"] b
  obtain r2 where "decode_fields r1 ?fb = Inr r2" "patient_j r2 = patient_j r1"
    by auto
  with r1 show ?thesis by (simp add: bind_err_def)
qed

lemma taggedI: "seg = nm @ CHR ''|'' # tail \<Longrightarrow> tagged nm seg"
  by (auto simp: tagged_def)

lemma tagged_msh: "tagged ''MSH'' (build_msh e hdr)"
  by (rule taggedI) (simp add: build_msh_def Let_def)

lemma tagged_pd1: "s \<in> set (pd1_segments x) \<Longrightarrow> tagged ''PD1'' s"
  by (auto simp: pd1_segments_def Let_def tagged_def split: option.splits)

lemma tagged_mrg: "s \<in> set (mrg_segments x) \<Longrightarrow> tagged ''MRG'' s"
  by (auto simp: mrg_segments_def tagged_def split: option.splits if_splits)

lemma map_err_Inr:
  "map_err f xs = Inr ys \<Longrightarrow> y \<in> set ys \<Longrightarrow> \<exists>x \<in> set xs. f x = Inr y"
proof (induction xs arbitrary: ys)
  case Nil
  then show ?case by simp
next
  case (Cons x xs)
  then show ?case
    by (cases "f x"; cases "map_err f xs") (auto simp: bind_err_def)
qed

lemma bind_err_Inr: "bind_err m f = Inr y \<Longrightarrow> \<exists>x. m = Inr x \<and> f x = Inr y"
  by (cases m) (auto simp: bind_err_def)

lemma tagged_al1: "al1_segment a = Inr s \<Longrightarrow> tagged ''AL1'' s"
  by (auto simp: al1_segment_def tagged_def dest!: bind_err_Inr)

lemma tagged_dg1: "dg1_segment a = Inr s \<Longrightarrow> tagged ''DG1'' s"
  by (auto simp: dg1_segment_def tagged_def dest!: bind_err_Inr)

lemma tagged_pr1: "pr1_segment a = Inr s \<Longrightarrow> tagged ''PR1'' s"
  by (auto simp: pr1_segment_def tagged_def dest!: bind_err_Inr)

lemma tagged_nk1: "tagged ''NK1'' (nk1_segment x)"
  by (simp add: nk1_segment_def tagged_def)

lemma tagged_gt1: "tagged ''GT1'' (gt1_segment x)"
  by (simp add: gt1_segment_def tagged_def)

lemma tagged_in1: "tagged ''IN1'' (in1_segment x)"
  by (simp add: in1_segment_def tagged_def)

lemma visit_segments_shape:
  "visit_segments e x = [] \<or>
   (\<exists>a b. visit_segments e x = [a, b] \<and> tagged ''PV1'' a \<and> tagged ''PV2'' b)"
proof (cases x)
  case None
  then show ?thesis by (simp add: visit_segments_def)
next
  case (Some v)
  have "tagged ''PV1'' (pv1_segment e v)"
    by (rule taggedI) (simp add: pv1_segment_def Let_def)
  moreover have "tagged ''PV2'' (pv2_segment e v)"
    by (rule taggedI) (simp add: pv2_segment_def)
  ultimately show ?thesis using Some by (simp add: visit_segments_def)
qed

lemma simple_name_facts:
  assumes "nm \<in> set [''MSH'', ''EVN'', ''PD1'', ''MRG'', ''AL1'', ''DG1'', ''PR1'', ''NK1'', ''GT1'', ''IN1'']"
  shows "CHR ''|'' \<notin> set nm \<and> nm \<noteq> ''PID'' \<and> nm \<noteq> ''PV2'' \<and> nm \<noteq> ''PV1'' \<and>
      \<not> is_space (hd nm) \<and> nm \<noteq> []"
proof -
  have "\<forall>nm \<in> set [''MSH'', ''EVN'', ''PD1'', ''MRG'', ''AL1'', ''DG1'', ''PR1'', ''NK1'', ''GT1'', ''IN1''].
    CHR ''|'' \<notin> set nm \<and> nm \<noteq> ''PID'' \<and> nm \<noteq> ''PV2'' \<and> nm \<noteq> ''PV1'' \<and>
      \<not> is_space (hd nm) \<and> nm \<noteq> []"
    unfolding list.set ball_simps by (simp add: is_space_def)
  from bspec [OF this assms] show ?thesis .
qed

lemma tagged_simple:
  assumes "tagged nm s"
    and "nm \<in> set [''MSH'', ''EVN'', ''PD1'', ''MRG'', ''AL1'', ''DG1'', ''PR1'', ''NK1'', ''GT1'', ''IN1'']"
  shows "seg_name s \<noteq> ''PID'' \<and> seg_name s \<noteq> ''PV2'' \<and> seg_name s \<noteq> ''PV1'' \<and> strip_truthy s"
proof -
  note f = simple_name_facts [OF assms(2)]
  have "seg_name s = nm"
    using tagged_seg_name [OF assms(1)] f by blast
  moreover have "strip_truthy s"
    using tagged_strip_truthy [of "hd nm" "tl nm" s] assms(1) f by simp
  ultimately show ?thesis using f by simp
qed

lemma simple_segI:
  "tagged nm s \<Longrightarrow>
   nm \<in> set [''MSH'', ''EVN'', ''PD1'', ''MRG'', ''AL1'', ''DG1'', ''PR1'', ''NK1'', ''GT1'', ''IN1''] \<Longrightarrow>
   simple_seg s"
  unfolding simple_seg_def by (rule tagged_simple)

lemma simple_pd1: "s \<in> set (pd1_segments x) \<Longrightarrow> simple_seg s"
  by (rule simple_segI [OF tagged_pd1]) simp_all

lemma simple_mrg: "s \<in> set (mrg_segments x) \<Longrightarrow> simple_seg s"
  by (rule simple_segI [OF tagged_mrg]) simp_all

lemma simple_al1: "map_err al1_segment xs = Inr ys \<Longrightarrow> s \<in> set ys \<Longrightarrow> simple_seg s"
  using map_err_Inr [of al1_segment xs ys s] simple_segI [OF tagged_al1, of _ s] by auto

lemma simple_dg1: "map_err dg1_segment xs = Inr ys \<Longrightarrow> s \<in> set ys \<Longrightarrow> simple_seg s"
  using map_err_Inr [of dg1_segment xs ys s] simple_segI [OF tagged_dg1, of _ s] by auto

lemma simple_pr1: "map_err pr1_segment xs = Inr ys \<Longrightarrow> s \<in> set ys \<Longrightarrow> simple_seg s"
  using map_err_Inr [of pr1_segment xs ys s] simple_segI [OF tagged_pr1, of _ s] by auto

lemma simple_nk1: "simple_seg (nk1_segment x)"
  by (rule simple_segI [OF tagged_nk1]) simp

lemma simple_gt1: "simple_seg (gt1_segment x)"
  by (rule simple_segI [OF tagged_gt1]) simp

lemma simple_in1: "simple_seg (in1_segment x)"
  by (rule simple_segI [OF tagged_in1]) simp

lemma simple_msh: "simple_seg (build_msh e hdr)"
  by (rule simple_segI [OF tagged_msh]) simp

lemma decode_segs_simple_seg:
  "\<forall>s \<in> set segs. simple_seg s \<Longrightarrow>
   \<exists>r'. decode_segs r segs = Inr r' \<and> patient_j r' = patient_j r \<and> visit_j r' = visit_j r"
  by (rule decode_segs_simple) (simp add: simple_seg_def)

lemma build_pid_fields:
  assumes "identifiers p = first # others"
    and "assigning_authority first = Some ASSIGNING_AUTHORITY_HEALTH_ID"
    and "CHR ''|'' \<notin> set (id' first)"
    and "build_pid p = Inr pid"
  shows "\<exists>rest. split_on (CHR ''|'') pid =
      ''PID'' # ''1'' # [] # (id' first @ ''^^^'' @ ASSIGNING_AUTHORITY_HEALTH_ID @ ''^ISO'') # rest"
proof -
  let ?pid3 = "id' first @ ''^^^'' @ ASSIGNING_AUTHORITY_HEALTH_ID @ ''^ISO''"
  obtain tail where pid: "pid = ''PID'' @ CHR ''|'' # ''1'' @ CHR ''|'' # [] @ CHR ''|'' # ?pid3 @ CHR ''|'' # tail"
    using assms(1,2,4) by (auto simp: build_pid_def bind_err_def Let_def fmt_opt_def)
  have bar: "CHR ''|'' \<notin> set ?pid3"
    using assms(3) by (simp add: ASSIGNING_AUTHORITY_HEALTH_ID_def)
  have s1: "\<And>b. split_on (CHR ''|'') (''PID'' @ CHR ''|'' # b) = ''PID'' # split_on (CHR ''|'') b"
    by (rule split_on_append_sep) simp
  have s2: "\<And>b. split_on (CHR ''|'') (''1'' @ CHR ''|'' # b) = ''1'' # split_on (CHR ''|'') b"
    by (rule split_on_append_sep) simp
  have s3: "\<And>b. split_on (CHR ''|'') ([] @ CHR ''|'' # b) = [] # split_on (CHR ''|'') b"
    by (rule split_on_append_sep) simp
  have s4: "\<And>b. split_on (CHR ''|'') (?pid3 @ CHR ''|'' # b) = ?pid3 # split_on (CHR ''|'') b"
    by (rule split_on_append_sep) (rule bar)
  have "split_on (CHR ''|'') pid = ''PID'' # ''1'' # [] # ?pid3 # split_on (CHR ''|'') tail"
    unfolding pid by (simp only: s1 s2 s3 s4)
  then show ?thesis by blast
qed

lemma hl7_segments_shape:
  assumes "hl7_segments e payload = Inr segs"
  shows "\<exists>front pid back.
      segs = front @ [pid] @ pd1_segments (pd1 payload) @ visit_segments e (visit payload) @ back \<and>
      build_pid (patient payload) = Inr pid \<and>
      (\<forall>s \<in> set front. simple_seg s) \<and> (\<forall>s \<in> set back. simple_seg s)"
proof -
  let ?evn = "''EVN|'' @
      (if CHR ''^'' \<in> set (event (header payload))
       then last (split_on (CHR ''^'') (event (header payload)))
       else event (header payload)) @
      ''|'' @ ts_to_hl7 e (utcnow e 1) (message_datetime (header payload))"
  from assms obtain pid al1s dg1s pr1s where
    pid: "build_pid (patient payload) = Inr pid" and
    al1s: "map_err al1_segment (opt_list (al1 payload)) = Inr al1s" and
    dg1s: "map_err dg1_segment (opt_list (dg1 payload)) = Inr dg1s" and
    pr1s: "map_err pr1_segment (opt_list (pr1 payload)) = Inr pr1s" and
    segs: "segs = [build_msh e (header payload), ?evn] @ [pid] @ pd1_segments (pd1 payload) @
        visit_segments e (visit payload) @
        (mrg_segments (mrg payload) @ al1s @ dg1s @ pr1s @
         map nk1_segment (opt_list (nk1 payload)) @
         map gt1_segment (opt_list (gt1 payload)) @
         map in1_segment (opt_list (in1 payload)))"
    unfolding hl7_segments_def Let_def
    by (cases "build_pid (patient payload)";
        cases "map_err al1_segment (opt_list (al1 payload))";
        cases "map_err dg1_segment (opt_list (dg1 payload))";
        cases "map_err pr1_segment (opt_list (pr1 payload))")
       (auto simp: bind_err_def)
  have evn: "simple_seg ?evn"
    by (rule simple_segI [of "''EVN''"]) (simp_all add: tagged_def)
  have fr: "\<forall>s \<in> set [build_msh e (header payload), ?evn]. simple_seg s"
    using evn simple_msh [of e "header payload"] by simp
  have bk: "\<forall>s \<in> set (mrg_segments (mrg payload) @ al1s @ dg1s @ pr1s @
         map nk1_segment (opt_list (nk1 payload)) @
         map gt1_segment (opt_list (gt1 payload)) @
         map in1_segment (opt_list (in1 payload))). simple_seg s"
    using simple_mrg simple_al1 [OF al1s] simple_dg1 [OF dg1s] simple_pr1 [OF pr1s]
      simple_nk1 simple_gt1 simple_in1
    by auto
  show ?thesis
    using segs pid fr bk by blast
qed

lemma filter_all: "\<forall>x \<in> set xs. P x \<Longrightarrow> filter P xs = xs"
  by (induction xs) auto

text \<open>
  C2 (as amended). When the primary identifier has the health-ID OID and its id has no
  \<open>|\<close>, and no segment that the encoder emits holds a carriage return, decoding the
  encoded message succeeds and yields as the only entry of \<open>patient.identifiers\<close> the whole
  field \<open>PID-3\<close>, \<open><id>^^^<OID>^ISO\<close>: the id followed by the authority suffix, not the id
  alone.
\<close>

theorem hl7_roundtrip_identifier:
  assumes ids: "identifiers (patient payload) = first # others"
    and auth: "assigning_authority first = Some ASSIGNING_AUTHORITY_HEALTH_ID"
    and bar: "CHR ''|'' \<notin> set (id' first)"
    and segs: "hl7_segments e payload = Inr segs"
    and cr: "\<forall>s \<in> set segs. CR \<notin> set s"
  shows "roundtrip_identifiers e payload =
     Inr (Some (L [id' first @ ''^^^'' @ ASSIGNING_AUTHORITY_HEALTH_ID @ ''^ISO'']))"
proof -
  let ?pid3 = "id' first @ ''^^^'' @ ASSIGNING_AUTHORITY_HEALTH_ID @ ''^ISO''"
  from hl7_segments_shape [OF segs] obtain front pid rest where
    shape: "segs = front @ [pid] @ pd1_segments (pd1 payload) @
        visit_segments e (visit payload) @ rest" and
    pid: "build_pid (patient payload) = Inr pid" and
    front: "\<forall>s \<in> set front. simple_seg s" and
    rest: "\<forall>s \<in> set rest. simple_seg s"
    by blast
  from build_pid_fields [OF ids auth bar pid] obtain fs where
    flds: "split_on (CHR ''|'') pid = ''PID'' # ''1'' # [] # ?pid3 # fs"
    by blast
  have "hd pid = CHR ''P'' \<and> pid \<noteq> []"
    using pid ids auth by (auto simp: build_pid_def bind_err_def Let_def)
  then have pid_truthy: "strip_truthy pid"
    by (cases pid) (simp_all add: strip_truthy_def is_space_def)
  have pd1: "\<forall>s \<in> set (pd1_segments (pd1 payload)). simple_seg s"
    using simple_pd1 by blast
  have notsp: "\<not> is_space (CHR ''P'')"
    by (simp add: is_space_def)
  have vis_truthy: "\<forall>s \<in> set (visit_segments e (visit payload)). strip_truthy s"
    using visit_segments_shape [of e "visit payload"]
      tagged_strip_truthy [of "CHR ''P''" "''V1''", OF _ notsp]
      tagged_strip_truthy [of "CHR ''P''" "''V2''", OF _ notsp]
    by auto
  have truthy: "\<forall>s \<in> set segs. strip_truthy s"
    unfolding shape using front rest pd1 vis_truthy pid_truthy
    by (auto simp: simple_seg_def)
  have nonempty: "segs \<noteq> []"
    unfolding shape by simp
  have "segments_of (join_chr CR segs) = segs"
    unfolding segments_of_def split_join [OF nonempty cr] by (rule filter_all [OF truthy])
  then have decode: "hl7_full_to_json (join_chr CR segs) = decode_segs initial_result segs"
    by (simp add: hl7_full_to_json_def)
  from decode_segs_simple_seg [OF front, of initial_result]
  obtain r1 where r1: "decode_segs initial_result front = Inr r1"
    by blast
  from decode_fields_PID [of r1 "''1'' # [] # ?pid3 # fs"]
  obtain r2 where r2: "decode_fields r1 (split_on (CHR ''|'') pid) = Inr r2"
    and p2: "map_of (patient_j r2) ''identifiers'' = Some (L [?pid3])"
    unfolding flds by auto
  from decode_segs_simple_seg [OF pd1, of r2]
  obtain r3 where r3: "decode_segs r2 (pd1_segments (pd1 payload)) = Inr r3"
    and p3: "patient_j r3 = patient_j r2"
    by blast
  have "\<exists>r4. decode_segs r3 (visit_segments e (visit payload)) = Inr r4 \<and>
      patient_j r4 = patient_j r3"
    using visit_segments_shape [of e "visit payload"] decode_segs_visit [of _ _ r3]
    by auto
  then obtain r4 where r4: "decode_segs r3 (visit_segments e (visit payload)) = Inr r4"
    and p4: "patient_j r4 = patient_j r3"
    by blast
  from decode_segs_simple_seg [OF rest, of r4]
  obtain r5 where r5: "decode_segs r4 rest = Inr r5" and p5: "patient_j r5 = patient_j r4"
    by blast
  have "decode_segs initial_result segs = Inr r5"
    unfolding shape
    by (simp only: decode_segs_append r1 r2 r3 r4 r5 bind_err_def sum.case decode_segs.simps)
  with decode p2 p3 p4 p5 segs show ?thesis
    by (simp add: roundtrip_identifiers_def json_to_hl7_full_def bind_err_def)
qed

lemma ts_example:
  "ts_to_hl7 example_env now (Some ''2025-10-21T12:30:00Z'') = ''20251021123000''"
  by (simp add: ts_to_hl7_def example_env_def example_fromisoformat_def replace_chr_def
      strftime_def zpad_numeral digit_chr_def)

lemma example_hl7_segments: "hl7_segments example_env example_payload = Inr example_segments"
  by (simp add: hl7_segments_def example_payload_def example_patient_def example_segments_def
      build_msh_def build_pid_def bind_err_def Let_def opt_list_def pd1_segments_def
      visit_segments_def pv1_segment_def pv2_segment_def mrg_segments_def ts_example ts_if_def
      falsy_def or_else_def fmt_opt_def escape_hl7_field_def replace_chr_def
      ASSIGNING_AUTHORITY_HEALTH_ID_def HL7_VERSION_def)

theorem hl7_roundtrip_identifier_witness:
  "roundtrip_identifiers example_env example_payload =
     Inr (Some (L [''NHIC123^^^2.16.840.1.113883.3.3731.1.1.100.1^ISO'']))"
proof -
  let ?first = "\<lparr>id' = ''NHIC123'', assigning_authority = Some ASSIGNING_AUTHORITY_HEALTH_ID,
          type' = None\<rparr>"
  have ids: "identifiers (patient example_payload) = ?first # []"
    by (simp add: example_payload_def example_patient_def)
  have auth: "assigning_authority ?first = Some ASSIGNING_AUTHORITY_HEALTH_ID"
    by simp
  have bar: "CHR ''|'' \<notin> set (id' ?first)"
    by simp
  have cr: "\<forall>s \<in> set example_segments. CR \<notin> set s"
    by (simp add: example_segments_def)
  from hl7_roundtrip_identifier [OF ids auth bar example_hl7_segments cr]
  show ?thesis
    by (simp add: ASSIGNING_AUTHORITY_HEALTH_ID_def)
qed

theorem hl7_roundtrip_not_raw_id:
  "id' (hd (identifiers (patient example_payload))) = ''NHIC123'' \<and>
   roundtrip_identifiers example_env example_payload =
     Inr (Some (L [''NHIC123^^^2.16.840.1.113883.3.3731.1.1.100.1^ISO'']))"
proof -
  have "id' (hd (identifiers (patient example_payload))) = ''NHIC123''"
    by (simp add: example_payload_def example_patient_def)
  moreover have "roundtrip_identifiers example_env example_payload =
     Inr (Some (L [''NHIC123^^^2.16.840.1.113883.3.3731.1.1.100.1^ISO'']))"
    by (simp add: roundtrip_identifiers_def json_to_hl7_full_def example_hl7_segments
        example_segments_def bind_err_def hl7_full_to_json_def segments_of_def strip_truthy_def
        is_space_def decode_fields_def initial_result_def dict_update_def fld_def)
  ultimately show ?thesis by simp
qed

subsection \<open>The ebXML builder\<close>

lemma qn_neq: "l \<noteq> l' \<Longrightarrow> qn p l \<noteq> qn p l'"
  by (simp add: qn_def)

lemma qn_rim_eq [simp]: "(qn ''rim'' l = qn ''rim'' l') = (l = l')"
  by (simp add: qn_def)

lemma qn_other_rim [simp]:
  "qn ''s'' l \<noteq> qn ''rim'' l'" "qn ''a'' l \<noteq> qn ''rim'' l'" "qn ''xds'' l \<noteq> qn ''rim'' l'"
  "qn ''lcm'' l \<noteq> qn ''rim'' l'" "''Document'' \<noteq> qn ''rim'' l'"
  by (simp_all add: qn_def SOAP_NS_def)

















lemma tag_add_slot [simp]: "el_tag (add_slot nm vals) = qn ''rim'' ''Slot''"
  by (simp add: add_slot_def)

lemma attr_add_slot [simp]: "attr (add_slot nm vals) ''name'' = Some nm"
  by (simp add: add_slot_def attr_def)

lemma slot_values_add_slot [simp]: "slot_values (add_slot nm vals) = map Some vals"
  by (simp add: add_slot_def slot_values_def comp_def)

lemma tag_external_identifier [simp]:
  "el_tag (external_identifier a b c d) = qn ''rim'' ''ExternalIdentifier''"
  by (simp add: external_identifier_def)

lemma tag_localized_name [simp]: "el_tag (localized_name tg v) = qn ''rim'' tg"
  by (simp add: localized_name_def)










end
